theory Spec2Isabelle
  imports Main "HOL-Library.Word"
begin

section \<open>IOS transport status codes\<close>

text \<open>
  \<^verbatim>\<open>IOSError\<close> is a 32-bit signed enumeration whose declaration (kernel_ios.h) is not
  part of the sources at hand. The enumerators the code names are constructors;
  \<open>IOS_Value h\<close> is any other value of the underlying integer, in particular a device
  handle converted by \<^verbatim>\<open>static_cast<IOSError>(handle)\<close>.
\<close>

datatype IOSError =
    IOS_OK
  | IOS_NotReady
  | IOS_QFull
  | IOS_QEmpty
  | IOS_FailInternal
  | IOS_InvalidHandle
  | IOS_NoExists
  | IOS_Value int

section \<open>The fixed-capacity FIFO of coreinit\_ipc.cpp\<close>

text \<open>
  A request pointer is the index of the request in \<^verbatim>\<open>driver->requests\<close>; \<open>None\<close> is
  \<^verbatim>\<open>nullptr\<close>. The capacity \<^verbatim>\<open>IPCBufferCount\<close> is declared in a header that is not
  part of the sources, so every operation takes it as the parameter \<open>N\<close>. The index and
  count fields are signed 32-bit in the source; they are integers here, and the
  reachability theorem below shows that they stay between \<open>-1\<close> and \<open>N\<close>, where the
  remainder \<^verbatim>\<open>%\<close> of the source, taken of a number that is not negative, is \<open>mod\<close>.
\<close>

record IPCDriverFIFO =
  pushIndex :: int
  popIndex :: int
  count :: int
  maxCount :: int
  requests :: "nat option list"

definition ipcDriverFifoInit :: "nat \<Rightarrow> IPCDriverFIFO \<Rightarrow> IPCDriverFIFO" where
  "ipcDriverFifoInit N fifo =
     fifo\<lparr>pushIndex := 0, popIndex := -1, count := 0, maxCount := 0,
          requests := fold (\<lambda>i rs. rs[i := None]) [0..<N] (requests fifo)\<rparr>"

definition ipcDriverFifoPush :: "nat \<Rightarrow> IPCDriverFIFO \<Rightarrow> nat \<Rightarrow> IOSError \<times> IPCDriverFIFO" where
  "ipcDriverFifoPush N fifo request =
     (if pushIndex fifo = popIndex fifo then (IOS_QFull, fifo)
      else
        let fifo1 = fifo\<lparr>requests := (requests fifo)[nat (pushIndex fifo) := Some request]\<rparr>;
            fifo2 = (if popIndex fifo1 = -1 then fifo1\<lparr>popIndex := pushIndex fifo1\<rparr> else fifo1);
            fifo3 = fifo2\<lparr>count := count fifo2 + 1\<rparr>;
            fifo4 = fifo3\<lparr>pushIndex := (pushIndex fifo3 + 1) mod int N\<rparr>;
            fifo5 = (if count fifo4 > maxCount fifo4 then fifo4\<lparr>maxCount := count fifo4\<rparr> else fifo4)
        in (IOS_OK, fifo5))"

text \<open>
  The third component is the pointer written to \<^verbatim>\<open>*requestOut\<close>; on \<^verbatim>\<open>QEmpty\<close> the
  source writes nothing, which is \<open>None\<close> here.
\<close>

definition ipcDriverFifoPop :: "nat \<Rightarrow> IPCDriverFIFO \<Rightarrow> IOSError \<times> IPCDriverFIFO \<times> nat option" where
  "ipcDriverFifoPop N fifo =
     (if popIndex fifo = -1 then (IOS_QEmpty, fifo, None)
      else
        let request = requests fifo ! nat (popIndex fifo);
            fifo1 = fifo\<lparr>count := count fifo - 1\<rparr>;
            fifo2 = (if count fifo1 = 0 then fifo1\<lparr>popIndex := -1\<rparr>
                     else fifo1\<lparr>popIndex := (popIndex fifo1 + 1) mod int N\<rparr>)
        in (IOS_OK, fifo2, request))"

section \<open>The per-core IPC driver of coreinit\_ipc.cpp\<close>

text \<open>
  A pointer to an IPC buffer is its index in the global array
  \<^verbatim>\<open>sIpcData->ipcBuffers\<close> (which holds \<^verbatim>\<open>IPCBufferCount * CoreCount\<close> buffers), so
  that pointer subtraction is integer subtraction; \<open>None\<close> is \<^verbatim>\<open>nullptr\<close>. Callbacks
  and contexts are opaque identifiers. The counters are \<^verbatim>\<open>uint32_t\<close> and wrap. The
  driver's array \<^verbatim>\<open>requests\<close> is the field \<open>driver_requests\<close>, since the FIFO has a
  field \<open>requests\<close> already. \<^verbatim>\<open>IPCDriverStatus\<close> is declared outside the sources; its
  four values are the ones the specification lists.
\<close>

datatype IPCDriverStatus =
    IPCDriverStatus_Uninitialised
  | IPCDriverStatus_Initialised
  | IPCDriverStatus_Open
  | IPCDriverStatus_Closed

record IPCDriverRequest =
  allocated :: bool
  ipcBuffer :: "int option"
  asyncCallback :: "nat option"
  asyncContext :: "nat option"

record IPCDriver =
  status :: IPCDriverStatus
  coreId :: nat
  ipcBuffers :: int
  initialisedRequests :: bool
  driver_requests :: "IPCDriverRequest list"
  freeFifo :: IPCDriverFIFO
  outboundFifo :: IPCDriverFIFO
  failedFreeRequestBlock :: "32 word"
  requestsProcessed :: "32 word"
  responses :: "int option list"
  numResponses :: nat

definition IPCDriverInit :: "nat \<Rightarrow> nat \<Rightarrow> IPCDriver \<Rightarrow> IPCDriver" where
  "IPCDriverInit N core driver =
     driver\<lparr>status := IPCDriverStatus_Initialised, coreId := core,
            ipcBuffers := int (N * core)\<rparr>"

definition IPCDriverOpen :: "nat \<Rightarrow> IPCDriver \<Rightarrow> IOSError \<times> IPCDriver" where
  "IPCDriverOpen N driver =
     (if status driver \<noteq> IPCDriverStatus_Closed \<and> status driver \<noteq> IPCDriverStatus_Initialised
      then (IOS_NotReady, driver)
      else
        let driver1 = fold (\<lambda>i d. d\<lparr>driver_requests := (driver_requests d)
                          [i := (driver_requests d ! i)\<lparr>ipcBuffer := Some (ipcBuffers d + int i),
                                                       asyncCallback := None,
                                                       asyncContext := None\<rparr>]\<rparr>)
                        [0..<N] driver;
            driver2 = driver1\<lparr>initialisedRequests := True\<rparr>;
            driver3 = driver2\<lparr>freeFifo := ipcDriverFifoInit N (freeFifo driver2)\<rparr>;
            driver4 = driver3\<lparr>outboundFifo := ipcDriverFifoInit N (outboundFifo driver3)\<rparr>;
            driver5 = fold (\<lambda>i d. d\<lparr>freeFifo := snd (ipcDriverFifoPush N (freeFifo d) i)\<rparr>)
                        [0..<N] driver4
        in (IOS_OK, driver5))"

definition IPCDriverClose :: "IPCDriver \<Rightarrow> IOSError \<times> IPCDriver" where
  "IPCDriverClose driver = (IOS_OK, driver\<lparr>status := IPCDriverStatus_Closed\<rparr>)"

definition ipcDriverFreeRequest :: "nat \<Rightarrow> IPCDriver \<Rightarrow> nat \<Rightarrow> IOSError \<times> IPCDriver" where
  "ipcDriverFreeRequest N driver request =
     (let (error, fifo) = ipcDriverFifoPush N (freeFifo driver) request;
          driver1 = driver\<lparr>freeFifo := fifo\<rparr>;
          driver2 = driver1\<lparr>driver_requests := (driver_requests driver1)
                      [request := (driver_requests driver1 ! request)\<lparr>allocated := False\<rparr>]\<rparr>;
          driver3 = (if error \<noteq> IOS_OK
                     then driver2\<lparr>failedFreeRequestBlock := failedFreeRequestBlock driver2 + 1\<rparr>
                     else driver2)
      in (error, driver3))"

text \<open>
  The requests held by a FIFO: the \<open>count\<close> slots from \<open>popIndex\<close> on, wrapping at
  \<open>N\<close>; these are the pointers later pops return.
\<close>

definition fifo_contents :: "nat \<Rightarrow> IPCDriverFIFO \<Rightarrow> nat option list" where
  "fifo_contents N fifo =
     map (\<lambda>k. requests fifo ! nat ((popIndex fifo + int k) mod int N)) [0..<nat (count fifo)]"

text \<open>
  What \<^verbatim>\<open>ipcDriverProcessResponses\<close> does to the outside: it signals the finish event
  of a request or calls its asynchronous callback with the reply and the context.
  A failed \<^verbatim>\<open>decaf_check\<close> aborts; reading \<^verbatim>\<open>driver->requests\<close> or
  \<^verbatim>\<open>driver->responses\<close> past the end of the array is a fault of its own. The source
  does not test a response pointer for null: a null pointer lies below every buffer, so
  its index is negative and \<^verbatim>\<open>decaf_check(index >= 0)\<close> fails. \<open>reply\<close> gives the \<^verbatim>\<open>reply\<close> field of the IPC buffer at an
  address.
\<close>

datatype IPCEvent =
    OSSignalEvent nat
  | AsyncCallback nat IOSError "nat option"

datatype IPCFault =
    CheckFailed
  | ResponseOutOfBounds nat
  | RequestOutOfBounds int

definition ipcDriverProcessResponse ::
  "nat \<Rightarrow> (int \<Rightarrow> IOSError) \<Rightarrow> nat \<Rightarrow> IPCDriver \<times> IPCEvent list
     \<Rightarrow> IPCFault + IPCDriver \<times> IPCEvent list" where
  "ipcDriverProcessResponse N reply i st =
     (let driver = fst st; evs = snd st in
      if \<not> i < length (responses driver) then Inl (ResponseOutOfBounds i)
      else
      case responses driver ! i of
        None \<Rightarrow> Inl CheckFailed
      | Some buffer \<Rightarrow>
          let index = buffer - ipcBuffers driver in
          if \<not> index \<ge> 0 then Inl CheckFailed
          else if \<not> index \<le> int N then Inl CheckFailed
          else if \<not> nat index < length (driver_requests driver)
            then Inl (RequestOutOfBounds index)
          else
            let request = driver_requests driver ! nat index in
            if ipcBuffer request \<noteq> Some buffer then Inl CheckFailed
            else
              let st1 = (case asyncCallback request of
                           None \<Rightarrow> (driver, evs @ [OSSignalEvent (nat index)])
                         | Some cb \<Rightarrow>
                             (snd (ipcDriverFreeRequest N driver (nat index)),
                              evs @ [AsyncCallback cb (reply buffer) (asyncContext request)]));
                  driver1 = fst st1;
                  driver2 = driver1\<lparr>requestsProcessed := requestsProcessed driver1 + 1\<rparr>;
                  driver3 = driver2\<lparr>responses := (responses driver2)[i := None]\<rparr>
              in Inr (driver3, snd st1))"

fun ipcDriverProcessResponsesLoop ::
  "nat \<Rightarrow> (int \<Rightarrow> IOSError) \<Rightarrow> nat list \<Rightarrow> IPCDriver \<times> IPCEvent list
     \<Rightarrow> IPCFault + IPCDriver \<times> IPCEvent list" where
  "ipcDriverProcessResponsesLoop N reply [] st = Inr st"
| "ipcDriverProcessResponsesLoop N reply (i # rest) st =
     (case ipcDriverProcessResponse N reply i st of
        Inl fault \<Rightarrow> Inl fault
      | Inr st1 \<Rightarrow> ipcDriverProcessResponsesLoop N reply rest st1)"

definition ipcDriverProcessResponses ::
  "nat \<Rightarrow> (int \<Rightarrow> IOSError) \<Rightarrow> IPCDriver \<Rightarrow> IPCFault + IPCDriver \<times> IPCEvent list" where
  "ipcDriverProcessResponses N reply driver =
     (case ipcDriverProcessResponsesLoop N reply [0..<numResponses driver] (driver, []) of
        Inl fault \<Rightarrow> Inl fault
      | Inr st \<Rightarrow> Inr ((fst st)\<lparr>numResponses := 0\<rparr>, snd st))"

text \<open>Concrete drivers and FIFOs for the worked examples (two buffers per driver).\<close>

definition fifo_blank :: IPCDriverFIFO where
  "fifo_blank = \<lparr>pushIndex = 0, popIndex = 0, count = 0, maxCount = 0, requests = [None, None]\<rparr>"

definition request_blank :: IPCDriverRequest where
  "request_blank = \<lparr>allocated = False, ipcBuffer = None, asyncCallback = None, asyncContext = None\<rparr>"

definition driver_blank :: IPCDriver where
  "driver_blank =
     \<lparr>status = IPCDriverStatus_Uninitialised, coreId = 0, ipcBuffers = 0,
      initialisedRequests = False, driver_requests = [request_blank, request_blank],
      freeFifo = fifo_blank, outboundFifo = fifo_blank,
      failedFreeRequestBlock = 0, requestsProcessed = 0,
      responses = [None, None], numResponses = 0\<rparr>"

definition driver_opened :: IPCDriver where
  "driver_opened = snd (IPCDriverOpen 2 (IPCDriverInit 2 0 driver_blank))"

text \<open>
  The FIFO states a program can reach: \<^verbatim>\<open>ipcDriverFifoInit\<close> on a FIFO structure
  (whose slot array has \<open>N\<close> entries), followed by any pushes and pops, failed ones
  included.
\<close>

inductive fifo_reachable :: "nat \<Rightarrow> IPCDriverFIFO \<Rightarrow> bool" for N :: nat where
  reach_init: "length (requests fifo0) = N \<Longrightarrow> fifo_reachable N (ipcDriverFifoInit N fifo0)"
| reach_push: "fifo_reachable N fifo \<Longrightarrow> fifo_reachable N (snd (ipcDriverFifoPush N fifo request))"
| reach_pop: "fifo_reachable N fifo \<Longrightarrow> fifo_reachable N (fst (snd (ipcDriverFifoPop N fifo)))"

text \<open>The representation invariant behind the reachable states.\<close>

definition fifo_inv :: "nat \<Rightarrow> IPCDriverFIFO \<Rightarrow> bool" where
  "fifo_inv N fifo =
     (length (requests fifo) = N \<and> 0 \<le> count fifo \<and> count fifo \<le> int N \<and>
      0 \<le> pushIndex fifo \<and> pushIndex fifo < int N \<and>
      (if count fifo = 0 then popIndex fifo = -1
       else 0 \<le> popIndex fifo \<and> popIndex fifo < int N \<and>
            pushIndex fifo = (popIndex fifo + count fifo) mod int N))"


definition fifo_two :: IPCDriverFIFO where
  "fifo_two = snd (ipcDriverFifoPush 2 (snd (ipcDriverFifoPush 2 (ipcDriverFifoInit 2 fifo_blank) 0)) 1)"

definition driver_foreign_response :: IPCDriver where
  "driver_foreign_response = driver_opened\<lparr>responses := [Some 2, None], numResponses := 1\<rparr>"

section \<open>The kernel's device registry and handle table (kernel\_ios.cpp)\<close>

text \<open>
  \<^verbatim>\<open>IOSDevice\<close> is an abstract class declared outside the sources at hand; a device
  object is the handle it stores together with what its virtual \<^verbatim>\<open>open(mode)\<close> and
  \<^verbatim>\<open>close()\<close> return. \<^verbatim>\<open>sDeviceMap\<close> maps a name to the device its creator function
  constructs. \<^verbatim>\<open>IOSHandle\<close> is a signed 32-bit integer: the post-increment of
  \<^verbatim>\<open>DeviceHandles\<close> at \<open>2^31 - 1\<close> has no defined result in the source and is the
  fault \<open>HandleCounterOverflow\<close> here.
\<close>

record IOSDevice =
  dev_handle :: int
  dev_open :: "int \<Rightarrow> IOSError"
  dev_close :: IOSError

record IOSKernel =
  DeviceHandles :: int
  sDeviceMap :: "string \<rightharpoonup> IOSDevice"
  sOpenDeviceMap :: "int \<rightharpoonup> IOSDevice"

datatype IOSFault = HandleCounterOverflow

definition iosGetDevice :: "IOSKernel \<Rightarrow> int \<Rightarrow> IOSDevice option" where
  "iosGetDevice ks handle = sOpenDeviceMap ks handle"

definition iosOpen :: "IOSKernel \<Rightarrow> string \<Rightarrow> int \<Rightarrow> IOSFault + IOSError \<times> IOSKernel" where
  "iosOpen ks name mode =
     (case sDeviceMap ks name of
        None \<Rightarrow> Inr (IOS_NoExists, ks)
      | Some device \<Rightarrow>
          let error = dev_open device mode in
          if error \<noteq> IOS_OK then Inr (error, ks)
          else if DeviceHandles ks = 2 ^ 31 - 1 then Inl HandleCounterOverflow
          else
            let handle = DeviceHandles ks;
                ks1 = ks\<lparr>DeviceHandles := DeviceHandles ks + 1\<rparr>;
                device1 = device\<lparr>dev_handle := handle\<rparr>;
                ks2 = ks1\<lparr>sOpenDeviceMap := (sOpenDeviceMap ks1)(handle \<mapsto> device1)\<rparr>
            in Inr (IOS_Value handle, ks2))"

definition iosClose :: "IOSKernel \<Rightarrow> int \<Rightarrow> IOSError \<times> IOSKernel" where
  "iosClose ks handle =
     (case iosGetDevice ks handle of
        None \<Rightarrow> (IOS_InvalidHandle, ks)
      | Some device \<Rightarrow>
          let reply = dev_close device
          in (reply, ks\<lparr>sOpenDeviceMap := (sOpenDeviceMap ks)(dev_handle device := None)\<rparr>))"

text \<open>
  The state at program start (the static initialisers) and \<^verbatim>\<open>iosInitDevices\<close>, which
  registers the FSA device; the device class itself is a parameter.
\<close>

definition ios_start :: IOSKernel where
  "ios_start = \<lparr>DeviceHandles = 1, sDeviceMap = Map.empty, sOpenDeviceMap = Map.empty\<rparr>"

definition iosInitDevices :: "IOSDevice \<Rightarrow> IOSKernel \<Rightarrow> IOSKernel" where
  "iosInitDevices fsa ks = ks\<lparr>sDeviceMap := (sDeviceMap ks)(''/dev/fsa'' \<mapsto> fsa)\<rparr>"

text \<open>
  A run of the kernel: the Open and Close commands of \<^verbatim>\<open>iosDispatchIpcRequest\<close>, one
  after the other, with the reply of each.
\<close>

datatype IOSRequest = IOS_Open string int | IOS_Close int

definition ios_step :: "IOSKernel \<Rightarrow> IOSRequest \<Rightarrow> IOSFault + IOSError \<times> IOSKernel" where
  "ios_step ks request =
     (case request of
        IOS_Open name mode \<Rightarrow> iosOpen ks name mode
      | IOS_Close handle \<Rightarrow> Inr (iosClose ks handle))"

fun ios_run :: "IOSKernel \<Rightarrow> IOSRequest list \<Rightarrow> IOSFault + IOSError list \<times> IOSKernel" where
  "ios_run ks [] = Inr ([], ks)"
| "ios_run ks (request # rest) =
     (case ios_step ks request of
        Inl fault \<Rightarrow> Inl fault
      | Inr (reply, ks1) \<Rightarrow>
          (case ios_run ks1 rest of
             Inl fault \<Rightarrow> Inl fault
           | Inr (replies, ks2) \<Rightarrow> Inr (reply # replies, ks2)))"

text \<open>
  An \<^verbatim>\<open>iosOpen\<close> is successful when it reaches its last \<^verbatim>\<open>return\<close>: the name is
  registered and the device's \<^verbatim>\<open>open\<close> returned \<^verbatim>\<open>OK\<close>. \<open>opened_handles\<close> collects,
  in order, what the successful opens of a run returned.
\<close>

definition iosOpen_succeeds :: "IOSKernel \<Rightarrow> IOSRequest \<Rightarrow> bool" where
  "iosOpen_succeeds ks request =
     (case request of
        IOS_Open name mode \<Rightarrow>
          (case sDeviceMap ks name of None \<Rightarrow> False | Some device \<Rightarrow> dev_open device mode = IOS_OK)
      | IOS_Close handle \<Rightarrow> False)"

fun opened_handles :: "IOSKernel \<Rightarrow> IOSRequest list \<Rightarrow> IOSError list" where
  "opened_handles ks [] = []"
| "opened_handles ks (request # rest) =
     (case ios_step ks request of
        Inl fault \<Rightarrow> []
      | Inr (reply, ks1) \<Rightarrow>
          (if iosOpen_succeeds ks request then [reply] else []) @ opened_handles ks1 rest)"

text \<open>
  Modelled from the spec: the FSA device class (kernel\_ios\_fsadevice.h is not part of
  the sources). Section 8, scenario 1 has its \<^verbatim>\<open>open\<close> and \<^verbatim>\<open>close\<close> succeed.
\<close>

definition FSADevice :: IOSDevice where
  "FSADevice = \<lparr>dev_handle = 0, dev_open = (\<lambda>mode. IOS_OK), dev_close = IOS_OK\<rparr>"

definition ios_scenario :: "IOSRequest list" where
  "ios_scenario = [IOS_Open ''/dev/fsa'' 0, IOS_Open ''/dev/fsa'' 0, IOS_Close 1, IOS_Open ''/dev/fsa'' 0]"

section \<open>FS command blocks (coreinit\_fs\_cmdblock.cpp): data\<close>

text \<open>
  The enumerations \<^verbatim>\<open>FSAStatus\<close>, \<^verbatim>\<open>FSStatus\<close>, \<^verbatim>\<open>FSErrorFlag\<close>, \<^verbatim>\<open>FSVolumeState\<close>,
  \<^verbatim>\<open>FSCmdBlockStatus\<close> and \<^verbatim>\<open>FSACommand\<close> are declared in headers that are not part of
  the sources, so their numeric values are unknown. Each enumerator the code names is a
  constructor. \<^verbatim>\<open>FSAStatus\<close> and \<^verbatim>\<open>FSStatus\<close> are signed 32-bit: \<open>FSA_Value n\<close> and
  \<open>FS_Value n\<close> stand for a value \<open>n\<close> that is none of the error enumerators (0 for OK,
  a byte or chunk count, an unlisted code), and \<open>FS_FromFSA e\<close> is the FSA error \<open>e\<close>
  converted by \<^verbatim>\<open>static_cast<FSStatus>\<close>. \<open>FSA_InvalidCommand\<close> is any command value
  without a \<^verbatim>\<open>case\<close> label in \<^verbatim>\<open>fsCmdBlockFinishCmd\<close>. The values of
  \<^verbatim>\<open>FSVolumeState\<close> and \<^verbatim>\<open>FSCmdBlockStatus\<close> are the ones the specification lists.
\<close>

datatype FSAError =
    FSA_NotInit | FSA_OutOfRange | FSA_OutOfResources | FSA_LinkEntry | FSA_UnavailableCmd
  | FSA_InvalidParam | FSA_InvalidPath | FSA_InvalidBuffer | FSA_InvalidAlignment
  | FSA_InvalidClientHandle | FSA_InvalidFileHandle | FSA_InvalidDirHandle
  | FSA_Busy | FSA_Cancelled | FSA_EndOfDir | FSA_EndOfFile
  | FSA_MaxMountpoints | FSA_MaxVolumes | FSA_MaxClients | FSA_MaxFiles | FSA_MaxDirs
  | FSA_AlreadyOpen | FSA_NotFound | FSA_AlreadyExists | FSA_NotEmpty
  | FSA_AccessError | FSA_PermissionError | FSA_DataCorrupted | FSA_StorageFull
  | FSA_JournalFull | FSA_UnsupportedCmd | FSA_NotFile | FSA_NotDir | FSA_FileTooBig
  | FSA_MediaError | FSA_InvalidMedia | FSA_MediaNotReady | FSA_WriteProtected

datatype FSAStatus = FSA_Error FSAError | FSA_Value int

datatype FSStatus =
    FS_Cancelled | FS_End | FS_Max | FS_AlreadyOpen | FS_Exists | FS_NotFound | FS_NotFile
  | FS_NotDirectory | FS_AccessError | FS_PermissionError | FS_FileTooBig | FS_StorageFull
  | FS_JournalFull | FS_UnsupportedCmd | FS_FatalError
  | FS_FromFSA FSAError
  | FS_Value int

text \<open>
  Modelled from the spec: the sign of the enumerators, whose values the missing headers
  give. Section 6: a reply below 0 is an FSAStatus category, and FSStatus values below 0
  are the errors; so every error enumerator is negative.
\<close>

definition fsa_negative :: "FSAStatus \<Rightarrow> bool" where
  "fsa_negative s = (case s of FSA_Error e \<Rightarrow> True | FSA_Value n \<Rightarrow> n < 0)"

definition fs_negative :: "FSStatus \<Rightarrow> bool" where
  "fs_negative s = (case s of FS_Value n \<Rightarrow> n < 0 | _ \<Rightarrow> True)"

text \<open>The conversions \<^verbatim>\<open>static_cast<FSStatus>(fsaStatus.value())\<close> and
  \<^verbatim>\<open>static_cast<uint32_t>(result)\<close>; the second is only reached with a result that is
  not negative, which is an \<open>FS_Value\<close>.\<close>

definition FSStatus_of_FSAStatus :: "FSAStatus \<Rightarrow> FSStatus" where
  "FSStatus_of_FSAStatus s = (case s of FSA_Error e \<Rightarrow> FS_FromFSA e | FSA_Value n \<Rightarrow> FS_Value n)"

definition uint32_of_FSStatus :: "FSStatus \<Rightarrow> 32 word" where
  "uint32_of_FSStatus s = (case s of FS_Value n \<Rightarrow> word_of_int n | _ \<Rightarrow> 0)"

text \<open>
  Modelled from the spec: \<^verbatim>\<open>FSErrorFlag\<close>, "a bitmask with one bit per category plus an
  All (= union) and None (= 0)" (section 6). A mask is the set of its categories, and
  \<^verbatim>\<open>a & b\<close> is non-zero when the two sets meet.
\<close>

datatype FSErrorCategory =
    Err_Max | Err_AlreadyOpen | Err_Exists | Err_NotFound | Err_NotFile | Err_NotDir
  | Err_AccessError | Err_PermissionError | Err_FileTooBig | Err_StorageFull
  | Err_JournalFull | Err_UnsupportedCmd

type_synonym FSErrorFlag = "FSErrorCategory set"

definition FSErrorFlag_None :: FSErrorFlag where
  "FSErrorFlag_None = {}"

definition FSErrorFlag_All :: FSErrorFlag where
  "FSErrorFlag_All =
     {Err_Max, Err_AlreadyOpen, Err_Exists, Err_NotFound, Err_NotFile, Err_NotDir,
      Err_AccessError, Err_PermissionError, Err_FileTooBig, Err_StorageFull,
      Err_JournalFull, Err_UnsupportedCmd}"

datatype FSVolumeState =
    FSVolumeState_Initial | FSVolumeState_Ready | FSVolumeState_NoMedia
  | FSVolumeState_WrongMedia | FSVolumeState_MediaError | FSVolumeState_DataCorrupted
  | FSVolumeState_Fatal

datatype FSCmdBlockStatus =
    FSCmdBlockStatus_Initialised | FSCmdBlockStatus_QueuedCommand
  | FSCmdBlockStatus_InProgress | FSCmdBlockStatus_Cancelled

datatype FSCmdCancelFlags = Cancelling

datatype FSReadFlag = ReadWithPos

datatype FSACommand =
    FSA_Mount | FSA_Unmount | FSA_ChangeDir | FSA_MakeDir | FSA_Remove | FSA_Rename
  | FSA_RewindDir | FSA_CloseDir | FSA_ReadFile | FSA_WriteFile | FSA_SetPosFile | FSA_IsEof
  | FSA_CloseFile | FSA_GetError | FSA_FlushFile | FSA_AppendFile | FSA_TruncateFile
  | FSA_MakeQuota | FSA_FlushQuota | FSA_RollbackQuota | FSA_ChangeMode
  | FSA_RegisterFlushQuota | FSA_FlushMultiQuota | FSA_RemoveQuota | FSA_MakeLink
  | FSA_GetVolumeInfo | FSA_OpenDir | FSA_ReadDir | FSA_OpenFile | FSA_OpenFileByStat
  | FSA_GetPosFile | FSA_StatFile | FSA_GetFileBlockAddress | FSA_GetCwd
  | FSA_GetInfoByQuery | FSA_InvalidCommand

datatype FSFinishCmdFn = fsCmdBlockFinishCmdFn | fsCmdBlockFinishReadCmdFn

text \<open>
  The part of a command block body the functions touch. A block is identified by a
  number (the pointer to it); pointers to message queues and callbacks are numbers too,
  \<open>None\<close> is \<^verbatim>\<open>nullptr\<close>. Addresses and sizes are 32-bit words. The shim's output copies
  of \<^verbatim>\<open>fsCmdBlockFinishCmd\<close> go to caller memory and are recorded as calls.
  Field names that are taken already carry a prefix: \<open>blockStatus\<close> is the block's
  \<^verbatim>\<open>status\<close>, \<open>block_clientBody\<close> its \<^verbatim>\<open>clientBody\<close>, \<open>readFile\<close> is
  \<^verbatim>\<open>cmdData.readFile\<close>, the \<open>shim_\<close> fields belong to \<^verbatim>\<open>fsaShimBuffer\<close>
  (\<open>shim_readFile\<close> is \<^verbatim>\<open>request.readFile\<close>, with fields \<open>req_\<close>), and
  \<open>result_block\<close> and \<open>result_status\<close> are \<^verbatim>\<open>asyncResult.block\<close> and
  \<^verbatim>\<open>asyncResult.status\<close>. The two \<^verbatim>\<open>unk\<close> fields that \<^verbatim>\<open>fsCmdBlockFinishCmd\<close> clears
  are left out.
\<close>

record FSReadState =
  bytesRead :: "32 word"
  bytesRemaining :: "32 word"
  readSize :: "32 word"
  chunkSize :: "32 word"

record FSAReadFileRequest =
  req_buffer :: "32 word"
  req_size :: "32 word"
  req_count :: "32 word"
  req_pos :: "32 word"
  req_readFlags :: "FSReadFlag set"

record IOSVec =
  paddr :: "32 word"
  len :: "32 word"

record FSAsyncData =
  userCallback :: "nat option"
  ioMsgQueue :: "nat option"

record FSAsyncResult =
  asyncData :: FSAsyncData
  result_block :: "nat option"
  result_status :: "FSStatus option"

record FSCmdBlockBody =
  block :: nat
  blockStatus :: FSCmdBlockStatus
  errorMask :: FSErrorFlag
  block_clientBody :: "nat option"
  cancelFlags :: "FSCmdCancelFlags set"
  finishCmdFn :: "FSFinishCmdFn option"
  fsaStatus :: FSAStatus
  asyncResult :: FSAsyncResult
  readFile :: FSReadState
  getFileBlockAddress_address :: "nat option"
  getCwd_bytes :: "32 word"
  shim_command :: FSACommand
  shim_readFile :: FSAReadFileRequest
  shim_getCwd_path :: string
  ioctlvVec :: "IOSVec list"

record FSClientBody =
  client :: nat
  registered :: bool
  lastError :: FSAStatus
  lastDequeuedCommand :: "nat option"
  fsm :: FSVolumeState

text \<open>
  Modelled from the spec: the message queues of the host runtime (\<^verbatim>\<open>OSSendMessage\<close> is
  not part of the sources). A queue has a fixed number of slots; a send without the
  blocking flag appends the message, or fails on a full queue. A message of the FS layer
  is the pair of block and status of an \<^verbatim>\<open>FSAsyncResult\<close>.
\<close>

record OSMessageQueue =
  messages :: "(nat \<times> FSStatus) list"
  slots :: nat

definition OSSendMessage :: "OSMessageQueue \<Rightarrow> nat \<times> FSStatus \<Rightarrow> bool \<times> OSMessageQueue" where
  "OSSendMessage queue msg =
     (if length (messages queue) < slots queue
      then (True, queue\<lparr>messages := messages queue @ [msg]\<rparr>)
      else (False, queue))"

text \<open>
  The calls into the command queue and the output copies, in the order they are made.
  The queue functions (\<^verbatim>\<open>fsCmdQueueFinishCmd\<close>, \<^verbatim>\<open>fsCmdQueuePushFront\<close>,
  \<^verbatim>\<open>fsCmdQueueEnqueue\<close>, \<^verbatim>\<open>fsCmdQueueProcessCmd\<close>) are not part of the sources; the
  model records each call with the block and the flag it passes.
\<close>

datatype FSCall =
    CmdQueueFinishCmd
  | CmdQueuePushFront nat
  | CmdQueueEnqueue nat bool
  | CmdQueueProcessCmd
  | CopyResult FSACommand

text \<open>
  The state the functions work on: a command block, the client body its \<open>clientBody\<close>
  pointer (\<open>block_clientBody\<close>) refers to, the message queues and the calls made so far. The mutexes are left
  out: the model is one thread.
\<close>

record FSWorld =
  fs_client :: FSClientBody
  fs_block :: FSCmdBlockBody
  msgQueues :: "nat \<Rightarrow> OSMessageQueue"
  calls :: "FSCall list"

datatype FSFault = Abort | DivisionByZero | NullPointer

section \<open>FS command blocks: operations\<close>

text \<open>
  Modelled from the spec: \<^verbatim>\<open>fsClientRegistered\<close>, \<^verbatim>\<open>fsmSetState\<close> and
  \<^verbatim>\<open>fsmEnterState\<close> (the client and state-machine modules are not part of the
  sources). The client body has a registered flag, and both state-machine functions
  bring the client's volume-state machine to the state they are given.
\<close>

definition fsClientRegistered :: "FSClientBody \<Rightarrow> bool" where
  "fsClientRegistered clientBody = registered clientBody"

definition fsmSetState :: "FSVolumeState \<Rightarrow> FSClientBody \<Rightarrow> FSClientBody" where
  "fsmSetState state clientBody = clientBody\<lparr>fsm := state\<rparr>"

definition fsmEnterState :: "FSVolumeState \<Rightarrow> FSClientBody \<Rightarrow> FSClientBody" where
  "fsmEnterState state clientBody = clientBody\<lparr>fsm := state\<rparr>"

text \<open>\<open>add_call\<close> records one call to a function outside the sources.\<close>

definition add_call :: "FSCall \<Rightarrow> FSWorld \<Rightarrow> FSWorld" where
  "add_call c w = w\<lparr>calls := calls w @ [c]\<rparr>"

definition fsCmdBlockSetResult :: "FSWorld \<Rightarrow> FSStatus \<Rightarrow> FSFault + FSWorld" where
  "fsCmdBlockSetResult w fsStatus =
     (let blockBody = fs_block w;
          blockBody1 = blockBody\<lparr>asyncResult := (asyncResult blockBody)
                         \<lparr>result_block := Some (block blockBody), result_status := Some fsStatus\<rparr>\<rparr>;
          w1 = w\<lparr>fs_block := blockBody1\<rparr>
      in case ioMsgQueue (asyncData (asyncResult blockBody1)) of
           None \<Rightarrow> Inl NullPointer
         | Some q \<Rightarrow>
             let sent = OSSendMessage (msgQueues w1 q) (block blockBody1, fsStatus) in
             if \<not> fst sent then Inl Abort
             else Inr (w1\<lparr>msgQueues := (msgQueues w1)(q := snd sent)\<rparr>))"

definition fsCmdBlockFinishCmd :: "FSWorld \<Rightarrow> FSStatus \<Rightarrow> FSFault + FSWorld" where
  "fsCmdBlockFinishCmd w result =
     (let blockBody = fs_block w; clientBody = fs_client w;
          blockBody1 = blockBody\<lparr>cancelFlags := cancelFlags blockBody - {Cancelling}\<rparr>;
          clientBody1 = (if lastDequeuedCommand clientBody = Some (block blockBody)
                         then clientBody\<lparr>lastDequeuedCommand := None\<rparr> else clientBody);
          blockBody2 = blockBody1\<lparr>blockStatus := FSCmdBlockStatus_Cancelled\<rparr>;
          w1 = w\<lparr>fs_block := blockBody2, fs_client := clientBody1\<rparr>
      in if fs_negative result then fsCmdBlockSetResult w1 result
         else
           (case shim_command blockBody2 of
              FSA_GetVolumeInfo \<Rightarrow> fsCmdBlockSetResult (add_call (CopyResult FSA_GetVolumeInfo) w1) result
            | FSA_OpenDir \<Rightarrow> fsCmdBlockSetResult (add_call (CopyResult FSA_OpenDir) w1) result
            | FSA_ReadDir \<Rightarrow> fsCmdBlockSetResult (add_call (CopyResult FSA_ReadDir) w1) result
            | FSA_OpenFile \<Rightarrow> fsCmdBlockSetResult (add_call (CopyResult FSA_OpenFile) w1) result
            | FSA_OpenFileByStat \<Rightarrow> fsCmdBlockSetResult (add_call (CopyResult FSA_OpenFileByStat) w1) result
            | FSA_GetPosFile \<Rightarrow> fsCmdBlockSetResult (add_call (CopyResult FSA_GetPosFile) w1) result
            | FSA_StatFile \<Rightarrow> fsCmdBlockSetResult (add_call (CopyResult FSA_StatFile) w1) result
            | FSA_GetFileBlockAddress \<Rightarrow>
                (case getFileBlockAddress_address blockBody2 of
                   Some address \<Rightarrow>
                     fsCmdBlockSetResult (add_call (CopyResult FSA_GetFileBlockAddress) w1) result
                 | None \<Rightarrow> fsCmdBlockSetResult w1 result)
            | FSA_GetCwd \<Rightarrow>
                (if getCwd_bytes blockBody2 \<noteq> 0
                 then (if \<not> length (shim_getCwd_path blockBody2) < unat (getCwd_bytes blockBody2)
                       then Inl Abort
                       else fsCmdBlockSetResult (add_call (CopyResult FSA_GetCwd) w1) result)
                 else fsCmdBlockSetResult w1 result)
            | FSA_GetInfoByQuery \<Rightarrow> Inl Abort
            | FSA_InvalidCommand \<Rightarrow> Inl Abort
            | _ \<Rightarrow> fsCmdBlockSetResult w1 result))"

text \<open>
  \<^verbatim>\<open>fsCmdBlockReplyResult\<close>, \<^verbatim>\<open>fsCmdBlockFinishReadCmd\<close> and \<^verbatim>\<open>fsCmdBlockRequeue\<close> call each
  other: the reply calls the block's finish function, the read finish function requeues,
  and a requeue of a block that is being cancelled replies \<^verbatim>\<open>FSStatus::Cancelled\<close>. The
  per-request cap \<^verbatim>\<open>FSMaxBytesPerRequest\<close> is declared outside the sources and is the
  parameter \<open>M\<close>. The division by \<open>chunkSize\<close> has no defined result at 0 in the source
  and is the fault \<open>DivisionByZero\<close> here.
\<close>

function fsCmdBlockReplyResult :: "32 word \<Rightarrow> FSWorld \<Rightarrow> FSStatus \<Rightarrow> FSFault + FSWorld"
  and fsCmdBlockFinishReadCmd :: "32 word \<Rightarrow> FSWorld \<Rightarrow> FSStatus \<Rightarrow> FSFault + FSWorld"
  and fsCmdBlockRequeue :: "32 word \<Rightarrow> FSWorld \<Rightarrow> bool \<Rightarrow> FSFinishCmdFn option \<Rightarrow> FSFault + FSWorld"
where
  "fsCmdBlockReplyResult M w fsStatus =
     (let w1 = add_call CmdQueueFinishCmd w in
      case (case finishCmdFn (fs_block w1) of
              None \<Rightarrow> Inr w1
            | Some fsCmdBlockFinishCmdFn \<Rightarrow> fsCmdBlockFinishCmd w1 fsStatus
            | Some fsCmdBlockFinishReadCmdFn \<Rightarrow> fsCmdBlockFinishReadCmd M w1 fsStatus) of
        Inl fault \<Rightarrow> Inl fault
      | Inr w2 \<Rightarrow> Inr (add_call CmdQueueProcessCmd w2))"
| "fsCmdBlockFinishReadCmd M w result =
     (if fs_negative result then fsCmdBlockFinishCmd w result
      else
        let n = uint32_of_FSStatus result;
            blockBody = fs_block w;
            readState = readFile blockBody;
            readState1 = readState\<lparr>bytesRead := bytesRead readState + n\<rparr>;
            readState2 = readState1\<lparr>bytesRemaining := bytesRemaining readState1 - n\<rparr>
        in if bytesRemaining readState2 = 0 \<or> n < readSize readState2
           then
             (if chunkSize readState2 = 0 then Inl DivisionByZero
              else
                let chunksRead = bytesRead readState2 div chunkSize readState2
                in fsCmdBlockFinishCmd (w\<lparr>fs_block := blockBody\<lparr>readFile := readState2\<rparr>\<rparr>)
                     (FS_Value (sint chunksRead)))
           else
             let readState3 = (if bytesRemaining readState2 > M
                               then readState2\<lparr>readSize := M\<rparr>
                               else readState2\<lparr>readSize := bytesRemaining readState2\<rparr>);
                 readRequest = shim_readFile blockBody;
                 readRequest1 = readRequest\<lparr>req_buffer := req_buffer readRequest + n\<rparr>;
                 readRequest2 = readRequest1\<lparr>req_size := readSize readState3\<rparr>;
                 readRequest3 = readRequest2\<lparr>req_count := 1\<rparr>;
                 readRequest4 = (if ReadWithPos \<in> req_readFlags readRequest3
                                 then readRequest3\<lparr>req_pos := req_pos readRequest3 + n\<rparr>
                                 else readRequest3);
                 vec = (ioctlvVec blockBody)
                         [1 := \<lparr>paddr = req_buffer readRequest4, len = req_size readRequest4\<rparr>];
                 blockBody1 = blockBody\<lparr>readFile := readState3, shim_readFile := readRequest4,
                                        ioctlvVec := vec\<rparr>
             in fsCmdBlockRequeue M (w\<lparr>fs_block := blockBody1\<rparr>) False
                  (Some fsCmdBlockFinishReadCmdFn))"
| "fsCmdBlockRequeue M w insertAtFront finishFn =
     (let blockBody = fs_block w in
      if Cancelling \<in> cancelFlags blockBody
      then
        let blockBody1 = blockBody\<lparr>cancelFlags := cancelFlags blockBody - {Cancelling}\<rparr>;
            blockBody2 = blockBody1\<lparr>blockStatus := FSCmdBlockStatus_Cancelled\<rparr>;
            clientBody1 = (fs_client w)\<lparr>lastDequeuedCommand := None\<rparr>
        in fsCmdBlockReplyResult M (w\<lparr>fs_block := blockBody2, fs_client := clientBody1\<rparr>) FS_Cancelled
      else
        let blockBody1 = blockBody\<lparr>finishCmdFn := finishFn\<rparr>;
            blockBody2 = blockBody1\<lparr>blockStatus := FSCmdBlockStatus_QueuedCommand\<rparr>;
            w1 = add_call CmdQueueFinishCmd (w\<lparr>fs_block := blockBody2\<rparr>);
            w2 = (if insertAtFront then add_call (CmdQueuePushFront (block blockBody2)) w1
                  else add_call (CmdQueueEnqueue (block blockBody2) True) w1)
        in Inr (add_call CmdQueueProcessCmd w2))"
  by pat_completeness auto
termination
  by (relation "measure (\<lambda>x. case x of
          Inl (M, w, s) \<Rightarrow> (if fs_negative s then 2 else 5)
        | Inr (Inl (M, w, s)) \<Rightarrow> (if fs_negative s then 1 else 4)
        | Inr (Inr (M, w, f, fn)) \<Rightarrow> (3::nat))")
     (auto simp: fs_negative_def)

declare fsCmdBlockReplyResult.simps [simp del]
declare fsCmdBlockFinishReadCmd.simps [simp del]
declare fsCmdBlockRequeue.simps [simp del]

text \<open>
  The \<^verbatim>\<open>switch\<close> of \<^verbatim>\<open>fsCmdBlockHandleResult\<close> over a negative status: it assigns a
  status and error flags (\<open>Translated\<close>), requeues a busy command, returns on
  \<^verbatim>\<open>InvalidMedia\<close>, or aborts where the source says TODO. \<open>result\<close> and \<open>errorFlags\<close> are
  the values the two variables hold before the \<^verbatim>\<open>switch\<close>; a value without a \<^verbatim>\<open>case\<close>
  label leaves both as they are.
\<close>

datatype FSSwitch = Translated FSStatus FSErrorFlag | RequeueBusy | ReturnSilently | AbortTodo

definition fsCmdBlockHandleResult_switch :: "FSAStatus \<Rightarrow> FSStatus \<Rightarrow> FSErrorFlag \<Rightarrow> FSSwitch" where
  "fsCmdBlockHandleResult_switch fsa result errorFlags =
     (case fsa of
        FSA_Value n \<Rightarrow> Translated result errorFlags
      | FSA_Error e \<Rightarrow>
          (case e of
             FSA_NotInit \<Rightarrow> Translated result FSErrorFlag_None
           | FSA_OutOfRange \<Rightarrow> Translated result FSErrorFlag_None
           | FSA_OutOfResources \<Rightarrow> Translated result FSErrorFlag_None
           | FSA_LinkEntry \<Rightarrow> Translated result FSErrorFlag_None
           | FSA_UnavailableCmd \<Rightarrow> Translated result FSErrorFlag_None
           | FSA_InvalidParam \<Rightarrow> Translated result FSErrorFlag_None
           | FSA_InvalidPath \<Rightarrow> Translated result FSErrorFlag_None
           | FSA_InvalidBuffer \<Rightarrow> Translated result FSErrorFlag_None
           | FSA_InvalidAlignment \<Rightarrow> Translated result FSErrorFlag_None
           | FSA_InvalidClientHandle \<Rightarrow> Translated result FSErrorFlag_None
           | FSA_InvalidFileHandle \<Rightarrow> Translated result FSErrorFlag_None
           | FSA_InvalidDirHandle \<Rightarrow> Translated result FSErrorFlag_None
           | FSA_Busy \<Rightarrow> RequeueBusy
           | FSA_Cancelled \<Rightarrow> Translated FS_Cancelled errorFlags
           | FSA_EndOfDir \<Rightarrow> Translated FS_End errorFlags
           | FSA_EndOfFile \<Rightarrow> Translated FS_End errorFlags
           | FSA_MaxMountpoints \<Rightarrow> Translated FS_Max {Err_Max}
           | FSA_MaxVolumes \<Rightarrow> Translated FS_Max {Err_Max}
           | FSA_MaxClients \<Rightarrow> Translated FS_Max {Err_Max}
           | FSA_MaxFiles \<Rightarrow> Translated FS_Max {Err_Max}
           | FSA_MaxDirs \<Rightarrow> Translated FS_Max {Err_Max}
           | FSA_AlreadyOpen \<Rightarrow> Translated FS_AlreadyOpen {Err_AlreadyOpen}
           | FSA_NotFound \<Rightarrow> Translated FS_NotFound {Err_NotFound}
           | FSA_AlreadyExists \<Rightarrow> Translated FS_Exists {Err_Exists}
           | FSA_NotEmpty \<Rightarrow> Translated FS_Exists {Err_Exists}
           | FSA_AccessError \<Rightarrow> Translated FS_AccessError {Err_AccessError}
           | FSA_PermissionError \<Rightarrow> Translated FS_PermissionError {Err_PermissionError}
           | FSA_DataCorrupted \<Rightarrow> AbortTodo
           | FSA_StorageFull \<Rightarrow> Translated FS_StorageFull {Err_StorageFull}
           | FSA_JournalFull \<Rightarrow> Translated FS_JournalFull {Err_JournalFull}
           | FSA_UnsupportedCmd \<Rightarrow> Translated FS_UnsupportedCmd {Err_UnsupportedCmd}
           | FSA_NotFile \<Rightarrow> Translated FS_NotFile {Err_NotFile}
           | FSA_NotDir \<Rightarrow> Translated FS_NotDirectory {Err_NotDir}
           | FSA_FileTooBig \<Rightarrow> Translated FS_FileTooBig {Err_FileTooBig}
           | FSA_MediaError \<Rightarrow> AbortTodo
           | FSA_InvalidMedia \<Rightarrow> ReturnSilently
           | FSA_MediaNotReady \<Rightarrow> Translated result errorFlags
           | FSA_WriteProtected \<Rightarrow> Translated result errorFlags))"

definition fsCmdBlockHandleResult :: "32 word \<Rightarrow> FSWorld \<Rightarrow> FSFault + FSWorld" where
  "fsCmdBlockHandleResult M w =
     (let blockBody = fs_block w;
          clientBody = fs_client w;
          result = FSStatus_of_FSAStatus (fsaStatus blockBody);
          errorFlags = FSErrorFlag_All
      in if \<not> fsClientRegistered clientBody
         then
           (case finishCmdFn blockBody of
              None \<Rightarrow> Inr w
            | Some fsCmdBlockFinishCmdFn \<Rightarrow> fsCmdBlockFinishCmd w FS_Cancelled
            | Some fsCmdBlockFinishReadCmdFn \<Rightarrow> fsCmdBlockFinishReadCmd M w FS_Cancelled)
         else
           let clientBody1 = clientBody\<lparr>lastError := fsaStatus blockBody\<rparr> in
           if fsaStatus blockBody = FSA_Error FSA_MediaNotReady
           then Inr (w\<lparr>fs_client := fsmSetState FSVolumeState_WrongMedia clientBody1\<rparr>)
           else if fsaStatus blockBody = FSA_Error FSA_WriteProtected
           then Inr (w\<lparr>fs_client := fsmSetState FSVolumeState_MediaError clientBody1\<rparr>)
           else
             let deliver = (\<lambda>fsStatus.
                   let clientBody2 = (if lastDequeuedCommand clientBody1 = Some (block blockBody)
                                      then clientBody1\<lparr>lastDequeuedCommand := None\<rparr>
                                      else clientBody1)
                   in fsCmdBlockReplyResult M (w\<lparr>fs_client := clientBody2\<rparr>) fsStatus)
             in if fsa_negative (fsaStatus blockBody)
                then
                  (case fsCmdBlockHandleResult_switch (fsaStatus blockBody) result errorFlags of
                     RequeueBusy \<Rightarrow>
                       fsCmdBlockRequeue M (w\<lparr>fs_client := clientBody1\<rparr>) True (finishCmdFn blockBody)
                   | ReturnSilently \<Rightarrow> Inr (w\<lparr>fs_client := clientBody1\<rparr>)
                   | AbortTodo \<Rightarrow> Inl Abort
                   | Translated result1 errorFlags1 \<Rightarrow>
                       if errorMask blockBody \<inter> errorFlags1 \<noteq> {}
                       then Inr (w\<lparr>fs_client := fsmEnterState FSVolumeState_Fatal clientBody1\<rparr>)
                       else deliver result1)
                else deliver result)"

text \<open>
  \<^verbatim>\<open>fsAsyncResultInit\<close> is not part of the sources; \<^verbatim>\<open>fsCmdBlockPrepareAsync\<close> takes it
  as the parameter \<open>asyncResultInit\<close>, which may do anything to the state. The client
  body and the block body are the two of the state, so the two \<^verbatim>\<open>decaf_check\<close>s for
  null pointers hold.
\<close>

definition fsCmdBlockPrepareAsync ::
  "(FSWorld \<Rightarrow> FSAsyncData \<Rightarrow> FSStatus \<times> FSWorld) \<Rightarrow> FSWorld \<Rightarrow> FSErrorFlag \<Rightarrow> FSAsyncData
     \<Rightarrow> FSStatus \<times> FSWorld" where
  "fsCmdBlockPrepareAsync asyncResultInit w errMask async =
     (let blockBody = fs_block w; clientBody = fs_client w in
      if blockStatus blockBody \<noteq> FSCmdBlockStatus_Initialised \<and>
         blockStatus blockBody \<noteq> FSCmdBlockStatus_Cancelled
      then (FS_FatalError, w)
      else if userCallback async \<noteq> None \<and> ioMsgQueue async \<noteq> None
      then (FS_FatalError, w)
      else
        let blockBody1 = blockBody\<lparr>errorMask := errMask\<rparr>;
            blockBody2 = blockBody1\<lparr>block_clientBody := Some (client clientBody)\<rparr>
        in asyncResultInit (w\<lparr>fs_block := blockBody2\<rparr>) async)"

section \<open>The status table of the specification and worked examples\<close>

text \<open>
  The table of section 4.7 of the specification, written from its rows: the FSStatus
  and the error flags of each FSA status that has them. The statuses with a side effect
  instead (Busy, InvalidMedia, MediaNotReady, WriteProtected) and the two the
  specification leaves open (DataCorrupted, MediaError) have no entry.
\<close>

definition spec_status_table :: "FSAError \<Rightarrow> (FSStatus \<times> FSErrorFlag) option" where
  "spec_status_table e =
     (if e \<in> {FSA_NotInit, FSA_OutOfRange, FSA_OutOfResources, FSA_LinkEntry, FSA_UnavailableCmd,
               FSA_InvalidParam, FSA_InvalidPath, FSA_InvalidBuffer, FSA_InvalidAlignment,
               FSA_InvalidClientHandle, FSA_InvalidFileHandle, FSA_InvalidDirHandle}
        then Some (FS_FromFSA e, FSErrorFlag_None)
      else if e = FSA_Cancelled then Some (FS_Cancelled, FSErrorFlag_All)
      else if e \<in> {FSA_EndOfDir, FSA_EndOfFile} then Some (FS_End, FSErrorFlag_All)
      else if e \<in> {FSA_MaxMountpoints, FSA_MaxVolumes, FSA_MaxClients, FSA_MaxFiles, FSA_MaxDirs}
        then Some (FS_Max, {Err_Max})
      else if e = FSA_AlreadyOpen then Some (FS_AlreadyOpen, {Err_AlreadyOpen})
      else if e = FSA_NotFound then Some (FS_NotFound, {Err_NotFound})
      else if e \<in> {FSA_AlreadyExists, FSA_NotEmpty} then Some (FS_Exists, {Err_Exists})
      else if e = FSA_AccessError then Some (FS_AccessError, {Err_AccessError})
      else if e = FSA_PermissionError then Some (FS_PermissionError, {Err_PermissionError})
      else if e = FSA_StorageFull then Some (FS_StorageFull, {Err_StorageFull})
      else if e = FSA_JournalFull then Some (FS_JournalFull, {Err_JournalFull})
      else if e = FSA_UnsupportedCmd then Some (FS_UnsupportedCmd, {Err_UnsupportedCmd})
      else if e = FSA_NotFile then Some (FS_NotFile, {Err_NotFile})
      else if e = FSA_NotDir then Some (FS_NotDirectory, {Err_NotDir})
      else if e = FSA_FileTooBig then Some (FS_FileTooBig, {Err_FileTooBig})
      else None)"

text \<open>
  A client with one read command in flight: block 7 reads 300 KB in chunks of 4096
  bytes into address \<open>0x10000000\<close>, with a cap of 256 KB per request; its results go
  to message queue 0, which has one free slot.
\<close>

definition read_block :: FSCmdBlockBody where
  "read_block =
     \<lparr>block = 7, blockStatus = FSCmdBlockStatus_QueuedCommand, errorMask = {Err_StorageFull},
      block_clientBody = Some 1, cancelFlags = {},
      finishCmdFn = Some fsCmdBlockFinishReadCmdFn, fsaStatus = FSA_Value 262144,
      asyncResult = \<lparr>asyncData = \<lparr>userCallback = None, ioMsgQueue = Some 0\<rparr>,
                      result_block = None, result_status = None\<rparr>,
      readFile = \<lparr>bytesRead = 0, bytesRemaining = 307200, readSize = 262144, chunkSize = 4096\<rparr>,
      getFileBlockAddress_address = None, getCwd_bytes = 0,
      shim_command = FSA_ReadFile,
      shim_readFile = \<lparr>req_buffer = 0x10000000, req_size = 262144, req_count = 1, req_pos = 0,
                        req_readFlags = {ReadWithPos}\<rparr>,
      shim_getCwd_path = [],
      ioctlvVec = [\<lparr>paddr = 0, len = 0\<rparr>, \<lparr>paddr = 0x10000000, len = 262144\<rparr>,
                   \<lparr>paddr = 0, len = 0\<rparr>]\<rparr>"

definition read_client :: FSClientBody where
  "read_client =
     \<lparr>client = 1, registered = True, lastError = FSA_Value 0,
      lastDequeuedCommand = Some 7, fsm = FSVolumeState_Ready\<rparr>"

definition read_world :: FSWorld where
  "read_world =
     \<lparr>fs_client = read_client, fs_block = read_block,
      msgQueues = (\<lambda>q. \<lparr>messages = [], slots = 1\<rparr>), calls = []\<rparr>"

definition with_fsaStatus :: "FSAStatus \<Rightarrow> FSWorld \<Rightarrow> FSWorld" where
  "with_fsaStatus s w = w\<lparr>fs_block := (fs_block w)\<lparr>fsaStatus := s\<rparr>\<rparr>"

definition with_errorMask :: "FSErrorFlag \<Rightarrow> FSWorld \<Rightarrow> FSWorld" where
  "with_errorMask m w = w\<lparr>fs_block := (fs_block w)\<lparr>errorMask := m\<rparr>\<rparr>"

definition with_cancelling :: "FSWorld \<Rightarrow> FSWorld" where
  "with_cancelling w = w\<lparr>fs_block := (fs_block w)\<lparr>cancelFlags := {Cancelling}\<rparr>\<rparr>"

text \<open>The read example after the first reply (256 KB read, 44 KB to go).\<close>

definition read_world_second :: FSWorld where
  "read_world_second =
     (case fsCmdBlockFinishReadCmd 262144 read_world (FS_Value 262144) of
        Inr w \<Rightarrow> w
      | Inl fault \<Rightarrow> read_world)"

text \<open>The same first reply on a block whose cancellation has been requested.\<close>

definition read_world_cancelled :: FSWorld where
  "read_world_cancelled =
     (case fsCmdBlockFinishReadCmd 262144 (with_cancelling read_world) (FS_Value 262144) of
        Inr w \<Rightarrow> w
      | Inl fault \<Rightarrow> read_world)"

text \<open>
  The read example with the FSA status \<^verbatim>\<open>StorageFull\<close> on a client that is no longer
  registered, and what \<^verbatim>\<open>fsCmdBlockHandleResult\<close> makes of it.
\<close>

definition with_unregistered :: "FSWorld \<Rightarrow> FSWorld" where
  "with_unregistered w = w\<lparr>fs_client := (fs_client w)\<lparr>registered := False\<rparr>\<rparr>"

definition unregistered_world :: FSWorld where
  "unregistered_world = with_unregistered (with_fsaStatus (FSA_Error FSA_StorageFull) read_world)"

definition unregistered_result :: FSWorld where
  "unregistered_result =
     (case fsCmdBlockHandleResult 262144 unregistered_world of
        Inr w \<Rightarrow> w
      | Inl fault \<Rightarrow> read_world)"

section \<open>Properties of the FIFO and the IPC driver\<close>

lemma fold_clear_length: "length (fold (\<lambda>i rs. rs[i := None]) is rs) = length rs"
  by (induction "is" arbitrary: rs) auto

lemma fifo_inv_init:
  assumes "0 < N" and "length (requests fifo0) = N"
  shows "fifo_inv N (ipcDriverFifoInit N fifo0)"
  using assms by (simp add: fifo_inv_def ipcDriverFifoInit_def fold_clear_length)

lemma mod_shift_neq:
  fixes p c n :: int
  assumes "0 \<le> p" "p < n" "0 < c" "c < n"
  shows "(p + c) mod n \<noteq> p"
proof (cases "p + c < n")
  case True
  with assms have "(p + c) mod n = p + c" by simp
  with assms show ?thesis by linarith
next
  case False
  with assms have "(p + c) mod n = (p + c - n) mod n"
    by (intro mod_pos_geq) linarith+
  also from False assms have "\<dots> = p + c - n"
    by (intro mod_pos_pos_trivial) linarith+
  finally show ?thesis using assms by linarith
qed

lemma fifo_full_iff:
  assumes "fifo_inv N fifo"
  shows "pushIndex fifo = popIndex fifo \<longleftrightarrow> count fifo = int N"
proof (cases "count fifo = 0")
  case True
  from assms have "popIndex fifo = -1" "0 \<le> pushIndex fifo" "pushIndex fifo < int N"
    unfolding fifo_inv_def using True by simp_all
  with True show ?thesis by linarith
next
  case False
  from assms False have c: "0 < count fifo" "count fifo \<le> int N"
    and p: "0 \<le> popIndex fifo" "popIndex fifo < int N"
    and e: "pushIndex fifo = (popIndex fifo + count fifo) mod int N"
    unfolding fifo_inv_def by simp_all
  show ?thesis
  proof
    assume "count fifo = int N"
    then have "(popIndex fifo + count fifo) mod int N = popIndex fifo"
      using p by simp
    then show "pushIndex fifo = popIndex fifo" unfolding e .
  next
    assume eq: "pushIndex fifo = popIndex fifo"
    show "count fifo = int N"
    proof (rule ccontr)
      assume "count fifo \<noteq> int N"
      with c have lt: "count fifo < int N" by simp
      from mod_shift_neq [OF p c(1) lt] e eq show False by metis
    qed
  qed
qed

lemma fifo_inv_push:
  assumes "fifo_inv N fifo"
  shows "fifo_inv N (snd (ipcDriverFifoPush N fifo request))"
proof (cases "pushIndex fifo = popIndex fifo")
  case True
  with assms show ?thesis by (simp add: ipcDriverFifoPush_def)
next
  case False
  with fifo_full_iff [OF assms] have nf: "count fifo \<noteq> int N" by simp
  from assms have N: "0 < int N" by (auto simp: fifo_inv_def)
  show ?thesis
  proof (cases "count fifo = 0")
    case True
    with assms False N show ?thesis
      by (auto simp: fifo_inv_def ipcDriverFifoPush_def Let_def)
  next
    case c: False
    with assms have ne: "popIndex fifo \<noteq> -1" by (auto simp: fifo_inv_def)
    from assms c have e: "pushIndex fifo = (popIndex fifo + count fifo) mod int N"
      by (auto simp: fifo_inv_def)
    have "(pushIndex fifo + 1) mod int N = (popIndex fifo + (count fifo + 1)) mod int N"
      unfolding e by (simp add: mod_add_left_eq add.assoc)
    with assms False nf c ne N show ?thesis
      by (auto simp: fifo_inv_def ipcDriverFifoPush_def Let_def)
  qed
qed

lemma fifo_inv_pop:
  assumes "fifo_inv N fifo"
  shows "fifo_inv N (fst (snd (ipcDriverFifoPop N fifo)))"
proof (cases "popIndex fifo = -1")
  case True
  with assms show ?thesis by (simp add: ipcDriverFifoPop_def)
next
  case False
  with assms have c: "count fifo \<noteq> 0" by (auto simp: fifo_inv_def split: if_splits)
  from assms have N: "0 < int N" by (auto simp: fifo_inv_def)
  from assms c have e: "pushIndex fifo = (popIndex fifo + count fifo) mod int N"
    by (auto simp: fifo_inv_def)
  have "(popIndex fifo + count fifo) mod int N = ((popIndex fifo + 1) mod int N + (count fifo - 1)) mod int N"
    by (simp add: mod_add_left_eq)
  with assms False c N e show ?thesis
    by (auto simp: fifo_inv_def ipcDriverFifoPop_def Let_def)
qed

lemma fifo_reachable_inv:
  assumes "fifo_reachable N fifo" and "0 < N"
  shows "fifo_inv N fifo"
  using assms
  by (induction rule: fifo_reachable.induct)
     (simp_all add: fifo_inv_init fifo_inv_push fifo_inv_pop)


text \<open>
  Claim C7. In every FIFO state reachable from \<^verbatim>\<open>ipcDriverFifoInit\<close> by pushes and pops
  (with a capacity \<open>N > 0\<close>): \<open>count\<close> lies in \<open>[0, N]\<close>; \<open>count = 0\<close> exactly when
  \<open>popIndex = -1\<close>; both indices stay below \<open>N\<close> and advance by one modulo \<open>N\<close>; a
  push onto a full FIFO returns \<^verbatim>\<open>QFull\<close> and returns the FIFO as it was; a pop from an
  empty FIFO returns \<^verbatim>\<open>QEmpty\<close> and returns the FIFO as it was.
\<close>

theorem fifo_reachable_bounds:
  assumes "fifo_reachable N fifo" and "0 < N"
  shows "0 \<le> count fifo \<and> count fifo \<le> int N \<and>
         (count fifo = 0 \<longleftrightarrow> popIndex fifo = -1) \<and>
         0 \<le> pushIndex fifo \<and> pushIndex fifo < int N \<and>
         -1 \<le> popIndex fifo \<and> popIndex fifo < int N \<and>
         (count fifo = int N \<longrightarrow> ipcDriverFifoPush N fifo request = (IOS_QFull, fifo)) \<and>
         (count fifo < int N \<longrightarrow>
            fst (ipcDriverFifoPush N fifo request) = IOS_OK \<and>
            count (snd (ipcDriverFifoPush N fifo request)) = count fifo + 1 \<and>
            pushIndex (snd (ipcDriverFifoPush N fifo request)) = (pushIndex fifo + 1) mod int N) \<and>
         (count fifo = 0 \<longrightarrow> ipcDriverFifoPop N fifo = (IOS_QEmpty, fifo, None)) \<and>
         (0 < count fifo \<longrightarrow>
            fst (ipcDriverFifoPop N fifo) = IOS_OK \<and>
            count (fst (snd (ipcDriverFifoPop N fifo))) = count fifo - 1 \<and>
            popIndex (fst (snd (ipcDriverFifoPop N fifo))) =
              (if count fifo = 1 then -1 else (popIndex fifo + 1) mod int N))"
proof -
  have inv: "fifo_inv N fifo" using assms by (rule fifo_reachable_inv)
  have full: "pushIndex fifo = popIndex fifo \<longleftrightarrow> count fifo = int N"
    by (rule fifo_full_iff [OF inv])
  have b: "0 \<le> count fifo" "count fifo \<le> int N" "0 \<le> pushIndex fifo" "pushIndex fifo < int N"
    using inv unfolding fifo_inv_def by simp_all
  have e: "count fifo = 0 \<longleftrightarrow> popIndex fifo = -1"
    using inv unfolding fifo_inv_def by (auto split: if_splits)
  have p: "-1 \<le> popIndex fifo" "popIndex fifo < int N"
    using inv assms(2) unfolding fifo_inv_def by (auto split: if_splits)
  have push_full: "count fifo = int N \<longrightarrow> ipcDriverFifoPush N fifo request = (IOS_QFull, fifo)"
    using full by (simp add: ipcDriverFifoPush_def)
  have push_ok: "count fifo < int N \<longrightarrow>
            fst (ipcDriverFifoPush N fifo request) = IOS_OK \<and>
            count (snd (ipcDriverFifoPush N fifo request)) = count fifo + 1 \<and>
            pushIndex (snd (ipcDriverFifoPush N fifo request)) = (pushIndex fifo + 1) mod int N"
    using full by (simp add: ipcDriverFifoPush_def Let_def)
  have pop_empty: "count fifo = 0 \<longrightarrow> ipcDriverFifoPop N fifo = (IOS_QEmpty, fifo, None)"
    using e by (simp add: ipcDriverFifoPop_def)
  have pop_ok: "0 < count fifo \<longrightarrow>
            fst (ipcDriverFifoPop N fifo) = IOS_OK \<and>
            count (fst (snd (ipcDriverFifoPop N fifo))) = count fifo - 1 \<and>
            popIndex (fst (snd (ipcDriverFifoPop N fifo))) =
              (if count fifo = 1 then -1 else (popIndex fifo + 1) mod int N)"
    using e by (auto simp: ipcDriverFifoPop_def Let_def)
  from b e p push_full push_ok pop_empty pop_ok show ?thesis by blast
qed

text \<open>Evaluation of the two-slot examples.\<close>

lemma upt_2: "[0..<2] = [0, Suc 0]"
  by (simp add: upt_rec numeral_2_eq_2)

lemma fifo_two_eq:
  "fifo_two = \<lparr>pushIndex = 0, popIndex = 0, count = 2, maxCount = 2,
               requests = [Some 0, Some (Suc 0)]\<rparr>"
  by (simp add: fifo_two_def fifo_blank_def ipcDriverFifoInit_def ipcDriverFifoPush_def Let_def upt_2)

text \<open>
  The hypotheses of C7 hold of the two-slot FIFO after two pushes (full) and of the
  freshly initialised one (empty).
\<close>

theorem fifo_reachable_bounds_witness:
  "fifo_reachable 2 fifo_two \<and> (0::nat) < 2 \<and> count fifo_two = 2 \<and>
   ipcDriverFifoPush 2 fifo_two 1 = (IOS_QFull, fifo_two) \<and>
   fifo_reachable 2 (ipcDriverFifoInit 2 fifo_blank) \<and>
   ipcDriverFifoPop 2 (ipcDriverFifoInit 2 fifo_blank) = (IOS_QEmpty, ipcDriverFifoInit 2 fifo_blank, None)"
proof -
  have r0: "fifo_reachable 2 (ipcDriverFifoInit 2 fifo_blank)"
    by (rule reach_init) (simp add: fifo_blank_def)
  have r2: "fifo_reachable 2 fifo_two"
    unfolding fifo_two_def by (intro reach_push r0)
  have c2: "count fifo_two = 2" by (simp add: fifo_two_eq)
  have c0: "count (ipcDriverFifoInit 2 fifo_blank) = 0" by (simp add: ipcDriverFifoInit_def)
  have pos: "(0::nat) < 2" by simp
  from fifo_reachable_bounds [OF r2 pos, of 1] c2
  have full: "ipcDriverFifoPush 2 fifo_two 1 = (IOS_QFull, fifo_two)" by simp
  from fifo_reachable_bounds [OF r0 pos, of 1] c0
  have empty: "ipcDriverFifoPop 2 (ipcDriverFifoInit 2 fifo_blank) = (IOS_QEmpty, ipcDriverFifoInit 2 fifo_blank, None)"
    by simp
  from r0 r2 c2 full empty show ?thesis by simp
qed

lemma driver_opened_eq:
  "driver_opened =
     \<lparr>status = IPCDriverStatus_Initialised, coreId = 0, ipcBuffers = 0,
      initialisedRequests = True,
      driver_requests =
        [\<lparr>allocated = False, ipcBuffer = Some 0, asyncCallback = None, asyncContext = None\<rparr>,
         \<lparr>allocated = False, ipcBuffer = Some 1, asyncCallback = None, asyncContext = None\<rparr>],
      freeFifo = \<lparr>pushIndex = 0, popIndex = 0, count = 2, maxCount = 2,
                  requests = [Some 0, Some (Suc 0)]\<rparr>,
      outboundFifo = \<lparr>pushIndex = 0, popIndex = -1, count = 0, maxCount = 0,
                      requests = [None, None]\<rparr>,
      failedFreeRequestBlock = 0, requestsProcessed = 0,
      responses = [None, None], numResponses = 0\<rparr>"
  by (simp add: driver_opened_def IPCDriverOpen_def IPCDriverInit_def driver_blank_def
      fifo_blank_def request_blank_def ipcDriverFifoInit_def ipcDriverFifoPush_def Let_def upt_2)

text \<open>
  \<^verbatim>\<open>IPCDriverOpen\<close> assigns the requests, \<^verbatim>\<open>initialisedRequests\<close> and the two FIFOs,
  and nothing else: the status field keeps its value on every path.
\<close>

lemma IPCDriverOpen_requests_status:
  "status (fold (\<lambda>i d. d\<lparr>driver_requests := f i d\<rparr>) is d) = status d"
  by (induction "is" arbitrary: d) simp_all

lemma IPCDriverOpen_seed_status:
  "status (fold (\<lambda>i d. d\<lparr>freeFifo := g i d\<rparr>) is d) = status d"
  by (induction "is" arbitrary: d) simp_all

lemma IPCDriverOpen_status: "status (snd (IPCDriverOpen N driver)) = status driver"
  by (simp add: IPCDriverOpen_def Let_def IPCDriverOpen_requests_status IPCDriverOpen_seed_status)

lemma IPCDriverOpen_NotReady:
  assumes "status driver \<noteq> IPCDriverStatus_Closed" and "status driver \<noteq> IPCDriverStatus_Initialised"
  shows "IPCDriverOpen N driver = (IOS_NotReady, driver)"
  using assms by (simp add: IPCDriverOpen_def)

text \<open>
  Claim C4 (the code departs from it). On a driver that \<^verbatim>\<open>IPCDriverInit\<close> has just
  initialised (two buffers), \<^verbatim>\<open>IPCDriverOpen\<close> returns \<^verbatim>\<open>OK\<close>, has linked the requests to
  buffers 0 and 1, cleared their callbacks, initialised both FIFOs and seeded the free
  FIFO with both requests; but the status is still \<^verbatim>\<open>Initialised\<close>, not \<^verbatim>\<open>Open\<close>, and a
  second \<^verbatim>\<open>IPCDriverOpen\<close> is therefore accepted too. On the driver that was never
  initialised the result is \<^verbatim>\<open>NotReady\<close> and the driver is unchanged.
\<close>

theorem IPCDriverOpen_leaves_status:
  "fst (IPCDriverOpen 2 (IPCDriverInit 2 0 driver_blank)) = IOS_OK \<and>
   status (snd (IPCDriverOpen 2 (IPCDriverInit 2 0 driver_blank))) = IPCDriverStatus_Initialised \<and>
   fst (IPCDriverOpen 2 (snd (IPCDriverOpen 2 (IPCDriverInit 2 0 driver_blank)))) = IOS_OK \<and>
   map ipcBuffer (driver_requests (snd (IPCDriverOpen 2 (IPCDriverInit 2 0 driver_blank)))) =
     [Some 0, Some 1] \<and>
   map asyncCallback (driver_requests (snd (IPCDriverOpen 2 (IPCDriverInit 2 0 driver_blank)))) =
     [None, None] \<and>
   fifo_contents 2 (freeFifo (snd (IPCDriverOpen 2 (IPCDriverInit 2 0 driver_blank)))) =
     [Some 0, Some 1] \<and>
   fifo_contents 2 (outboundFifo (snd (IPCDriverOpen 2 (IPCDriverInit 2 0 driver_blank)))) = [] \<and>
   IPCDriverOpen 2 driver_blank = (IOS_NotReady, driver_blank)"
proof -
  have s: "status (IPCDriverInit 2 0 driver_blank) = IPCDriverStatus_Initialised"
    by (simp add: IPCDriverInit_def)
  have ok: "\<And>d. status d = IPCDriverStatus_Initialised \<Longrightarrow> fst (IPCDriverOpen 2 d) = IOS_OK"
    by (simp add: IPCDriverOpen_def Let_def)
  have st: "fst (IPCDriverOpen 2 (IPCDriverInit 2 0 driver_blank)) = IOS_OK \<and>
   status (snd (IPCDriverOpen 2 (IPCDriverInit 2 0 driver_blank))) = IPCDriverStatus_Initialised \<and>
   fst (IPCDriverOpen 2 (snd (IPCDriverOpen 2 (IPCDriverInit 2 0 driver_blank)))) = IOS_OK"
    using s ok IPCDriverOpen_status [of 2 "IPCDriverInit 2 0 driver_blank"] by simp
  have o: "snd (IPCDriverOpen 2 (IPCDriverInit 2 0 driver_blank)) = driver_opened"
    by (simp add: driver_opened_def)
  have rest: "map ipcBuffer (driver_requests driver_opened) = [Some 0, Some 1]"
    "map asyncCallback (driver_requests driver_opened) = [None, None]"
    "fifo_contents 2 (freeFifo driver_opened) = [Some 0, Some 1]"
    "fifo_contents 2 (outboundFifo driver_opened) = []"
    by (simp_all add: driver_opened_eq fifo_contents_def upt_2)
  have nr: "IPCDriverOpen 2 driver_blank = (IOS_NotReady, driver_blank)"
    by (rule IPCDriverOpen_NotReady) (simp_all add: driver_blank_def)
  from st rest nr show ?thesis unfolding o by simp
qed

text \<open>
  Claim C9, as stated, fails: right after \<^verbatim>\<open>IPCDriverOpen\<close> the free FIFO holds every
  request, so freeing request 0 (a double free) returns \<^verbatim>\<open>QFull\<close> although request 0
  is in the free FIFO.
\<close>

theorem ipcDriverFreeRequest_double_free:
  "fst (ipcDriverFreeRequest 2 driver_opened 0) = IOS_QFull \<and>
   Some 0 \<in> set (fifo_contents 2 (freeFifo (snd (ipcDriverFreeRequest 2 driver_opened 0)))) \<and>
   \<not> allocated (driver_requests (snd (ipcDriverFreeRequest 2 driver_opened 0)) ! 0)"
  by (simp add: driver_opened_eq ipcDriverFreeRequest_def ipcDriverFifoPush_def fifo_contents_def upt_2)

text \<open>
  Claim C9, amended. For every call of \<^verbatim>\<open>ipcDriverFreeRequest\<close> on a request of the
  driver: the request's \<open>allocated\<close> flag is \<^verbatim>\<open>FALSE\<close> afterwards whether or not the push
  succeeded; the value returned is the one of the push; when that is \<^verbatim>\<open>QFull\<close>,
  \<open>failedFreeRequestBlock\<close> has been incremented and the free FIFO is exactly as it was
  (the request has not been inserted); otherwise the result is \<^verbatim>\<open>OK\<close> and the counter
  is unchanged.
\<close>

theorem ipcDriverFreeRequest_effect:
  assumes "request < length (driver_requests driver)"
  shows "\<not> allocated (driver_requests (snd (ipcDriverFreeRequest N driver request)) ! request) \<and>
         fst (ipcDriverFreeRequest N driver request) = fst (ipcDriverFifoPush N (freeFifo driver) request) \<and>
         (fst (ipcDriverFreeRequest N driver request) = IOS_QFull \<longrightarrow>
            failedFreeRequestBlock (snd (ipcDriverFreeRequest N driver request)) =
              failedFreeRequestBlock driver + 1 \<and>
            freeFifo (snd (ipcDriverFreeRequest N driver request)) = freeFifo driver) \<and>
         (fst (ipcDriverFreeRequest N driver request) \<noteq> IOS_QFull \<longrightarrow>
            fst (ipcDriverFreeRequest N driver request) = IOS_OK \<and>
            failedFreeRequestBlock (snd (ipcDriverFreeRequest N driver request)) =
              failedFreeRequestBlock driver)"
  using assms
  by (simp add: ipcDriverFreeRequest_def ipcDriverFifoPush_def Let_def split: prod.splits)

text \<open>The amended C9 at the double free of request 0 on the opened two-buffer driver.\<close>

theorem ipcDriverFreeRequest_effect_witness:
  "(0::nat) < length (driver_requests driver_opened) \<and>
   \<not> allocated (driver_requests (snd (ipcDriverFreeRequest 2 driver_opened 0)) ! 0) \<and>
   fst (ipcDriverFreeRequest 2 driver_opened 0) = IOS_QFull \<and>
   failedFreeRequestBlock (snd (ipcDriverFreeRequest 2 driver_opened 0)) = 1 \<and>
   freeFifo (snd (ipcDriverFreeRequest 2 driver_opened 0)) = freeFifo driver_opened"
proof -
  have l: "(0::nat) < length (driver_requests driver_opened)" by (simp add: driver_opened_eq)
  have q: "fst (ipcDriverFifoPush 2 (freeFifo driver_opened) 0) = IOS_QFull"
    by (simp add: driver_opened_eq ipcDriverFifoPush_def)
  have z: "failedFreeRequestBlock driver_opened = 0" by (simp add: driver_opened_eq)
  from ipcDriverFreeRequest_effect [OF l, of 2] q z l show ?thesis by simp
qed

text \<open>
  For any capacity: a response buffer exactly \<^verbatim>\<open>IPCBufferCount\<close> buffers after the
  driver's first one passes both index checks and faults at the array access.
\<close>

lemma ipcDriverProcessResponse_admits_N:
  assumes "i < length (responses driver)"
    and "responses driver ! i = Some (ipcBuffers driver + int N)"
    and "length (driver_requests driver) = N"
  shows "ipcDriverProcessResponse N reply i (driver, evs) = Inl (RequestOutOfBounds (int N))"
  using assms by (simp add: ipcDriverProcessResponse_def Let_def)

text \<open>
  Claim C10 (the code departs from it). A response whose buffer is the one right after
  the driver's last buffer (index \<open>IPCBufferCount\<close>, here 2: the first buffer of the next
  core) passes \<^verbatim>\<open>index >= 0\<close> and \<^verbatim>\<open>index <= IPCBufferCount\<close>, and the read of
  \<^verbatim>\<open>driver->requests[index]\<close> is then outside the array.
\<close>

theorem ipcDriverProcessResponses_index_past_end:
  "ipcDriverProcessResponses 2 (\<lambda>buffer. IOS_OK) driver_foreign_response = Inl (RequestOutOfBounds 2)"
  by (simp add: driver_foreign_response_def driver_opened_eq ipcDriverProcessResponses_def
      ipcDriverProcessResponse_def upt_rec)

section \<open>Properties of the handle allocation\<close>

text \<open>
  A step of the kernel that does not fault advances \<^verbatim>\<open>DeviceHandles\<close> by one and
  returns its old value when it is a successful open, and leaves it alone otherwise.
\<close>

lemma ios_step_counter:
  assumes "ios_step ks request = Inr (reply, ks1)"
  shows "if iosOpen_succeeds ks request
         then reply = IOS_Value (DeviceHandles ks) \<and> DeviceHandles ks1 = DeviceHandles ks + 1
         else DeviceHandles ks1 = DeviceHandles ks"
  using assms
  by (auto simp: ios_step_def iosOpen_def iosClose_def iosOpen_succeeds_def iosGetDevice_def Let_def
      split: IOSRequest.splits option.splits if_splits)

lemma opened_handles_from:
  "opened_handles ks reqs =
     map (\<lambda>k. IOS_Value (DeviceHandles ks + int k)) [0..<length (opened_handles ks reqs)]"
proof (induction reqs arbitrary: ks)
  case Nil
  show ?case by simp
next
  case (Cons request rest)
  show ?case
  proof (cases "ios_step ks request")
    case (Inl fault)
    then show ?thesis by simp
  next
    case (Inr res)
    obtain reply ks1 where res: "res = (reply, ks1)" by (cases res)
    note step = ios_step_counter [OF Inr [unfolded res]]
    note ih = Cons.IH [of ks1]
    show ?thesis
    proof (cases "iosOpen_succeeds ks request")
      case True
      with step have r: "reply = IOS_Value (DeviceHandles ks)"
        and c: "DeviceHandles ks1 = DeviceHandles ks + 1" by simp_all
      have "opened_handles ks (request # rest) = reply # opened_handles ks1 rest"
        using Inr res True by simp
      also have "\<dots> = IOS_Value (DeviceHandles ks + int 0) #
          map (\<lambda>k. IOS_Value (DeviceHandles ks + int (Suc k))) [0..<length (opened_handles ks1 rest)]"
      proof -
        have f: "(\<lambda>k. IOS_Value (DeviceHandles ks1 + int k)) =
                 (\<lambda>k. IOS_Value (DeviceHandles ks + int (Suc k)))"
          using c by (simp add: fun_eq_iff)
        from ih [unfolded f] r show ?thesis by simp
      qed
      also have "\<dots> = map (\<lambda>k. IOS_Value (DeviceHandles ks + int k))
          [0..<Suc (length (opened_handles ks1 rest))]"
        by (rule map_upt_Suc [symmetric])
      finally show ?thesis using Inr res True by simp
    next
      case False
      with step have c: "DeviceHandles ks1 = DeviceHandles ks" by simp
      have "opened_handles ks (request # rest) = opened_handles ks1 rest"
        using Inr res False by simp
      with ih c show ?thesis by simp
    qed
  qed
qed


text \<open>The counter overflows only after \<open>2^31 - 2\<close> successful opens.\<close>

lemma ios_step_no_fault:
  assumes "DeviceHandles ks \<noteq> 2 ^ 31 - 1"
  shows "\<exists>reply ks1. ios_step ks request = Inr (reply, ks1) \<and> DeviceHandles ks1 \<le> DeviceHandles ks + 1"
  using assms
  by (auto simp: ios_step_def iosOpen_def iosClose_def iosGetDevice_def Let_def
      split: IOSRequest.splits option.splits)

lemma ios_run_no_fault:
  "DeviceHandles ks + int (length reqs) \<le> 2 ^ 31 - 1 \<Longrightarrow> \<exists>replies ks'. ios_run ks reqs = Inr (replies, ks')"
proof (induction reqs arbitrary: ks)
  case Nil
  show ?case by simp
next
  case (Cons request rest)
  from Cons.prems have "DeviceHandles ks \<noteq> 2 ^ 31 - 1" by simp
  from ios_step_no_fault [OF this, of request]
  obtain reply ks1 where step: "ios_step ks request = Inr (reply, ks1)"
    and le: "DeviceHandles ks1 \<le> DeviceHandles ks + 1" by blast
  from Cons.prems le have "DeviceHandles ks1 + int (length rest) \<le> 2 ^ 31 - 1" by simp
  from Cons.IH [OF this] obtain replies ks' where "ios_run ks1 rest = Inr (replies, ks')" by blast
  with step show ?case by simp
qed

text \<open>
  Claim C8. From a state whose handle counter is 1 (the static initialiser), the values
  returned by the successful \<^verbatim>\<open>iosOpen\<close> calls of any run of opens and closes are, in
  order, the handles 1, 2, 3, ...: each is positive, each is larger than the one before,
  and none is returned twice, whatever was closed in between. A run of fewer than
  \<open>2^31 - 1\<close> requests never reaches the overflow of the counter.
\<close>

theorem iosOpen_handles_fresh:
  assumes "DeviceHandles ks = 1"
  shows "opened_handles ks reqs =
           map (\<lambda>k. IOS_Value (int k)) [1..<Suc (length (opened_handles ks reqs))] \<and>
         distinct (opened_handles ks reqs) \<and>
         (int (length reqs) < 2 ^ 31 - 1 \<longrightarrow> (\<exists>replies ks'. ios_run ks reqs = Inr (replies, ks')))"
proof -
  let ?hs = "opened_handles ks reqs"
  have "?hs = map (\<lambda>k. IOS_Value (1 + int k)) [0..<length ?hs]"
    using opened_handles_from [of ks reqs] assms by simp
  also have "\<dots> = map (\<lambda>k. IOS_Value (int k)) (map Suc [0..<length ?hs])"
    by (simp add: o_def add.commute)
  also have "\<dots> = map (\<lambda>k. IOS_Value (int k)) [1..<Suc (length ?hs)]"
    by (simp only: map_Suc_upt One_nat_def)
  finally have eq: "?hs = map (\<lambda>k. IOS_Value (int k)) [1..<Suc (length ?hs)]" .
  have "distinct (map (\<lambda>k. IOS_Value (int k)) [1..<Suc (length ?hs)])"
    by (simp add: distinct_map inj_on_def)
  with eq have d: "distinct ?hs" by simp
  have nf: "int (length reqs) < 2 ^ 31 - 1 \<longrightarrow> (\<exists>replies ks'. ios_run ks reqs = Inr (replies, ks'))"
  proof
    assume "int (length reqs) < 2 ^ 31 - 1"
    with assms have "DeviceHandles ks + int (length reqs) \<le> 2 ^ 31 - 1" by simp
    then show "\<exists>replies ks'. ios_run ks reqs = Inr (replies, ks')" by (rule ios_run_no_fault)
  qed
  from eq d nf show ?thesis by blast
qed

text \<open>Scenario 1 of section 8: Open, Open, Close(1), Open.\<close>

lemma ios_scenario_run:
  "\<exists>ks'. ios_run (iosInitDevices FSADevice ios_start) ios_scenario =
     Inr ([IOS_Value 1, IOS_Value 2, IOS_OK, IOS_Value 3], ks')"
  by (simp add: ios_scenario_def iosInitDevices_def ios_start_def FSADevice_def ios_step_def
      iosOpen_def iosClose_def iosGetDevice_def Let_def)

lemma ios_scenario_length:
  "length (opened_handles (iosInitDevices FSADevice ios_start) ios_scenario) = 3"
  by (simp add: ios_scenario_def iosInitDevices_def ios_start_def FSADevice_def ios_step_def
      iosOpen_def iosClose_def iosGetDevice_def iosOpen_succeeds_def Let_def)

text \<open>C8 at scenario 1: the three opens return 1, 2 and 3, and Close(1) returns OK.\<close>

theorem iosOpen_handles_fresh_witness:
  "DeviceHandles (iosInitDevices FSADevice ios_start) = 1 \<and>
   opened_handles (iosInitDevices FSADevice ios_start) ios_scenario =
     [IOS_Value 1, IOS_Value 2, IOS_Value 3] \<and>
   (\<exists>ks'. ios_run (iosInitDevices FSADevice ios_start) ios_scenario =
     Inr ([IOS_Value 1, IOS_Value 2, IOS_OK, IOS_Value 3], ks'))"
proof -
  have one: "DeviceHandles (iosInitDevices FSADevice ios_start) = 1"
    by (simp add: iosInitDevices_def ios_start_def)
  have "[1..<Suc 3] = [1, 2, 3]" by (simp add: upt_rec)
  with iosOpen_handles_fresh [OF one, of ios_scenario] ios_scenario_length
  have "opened_handles (iosInitDevices FSADevice ios_start) ios_scenario =
     [IOS_Value 1, IOS_Value 2, IOS_Value 3]" by simp
  with one ios_scenario_run show ?thesis by simp
qed

section \<open>Properties of the FS command block\<close>

text \<open>The branches of \<^verbatim>\<open>fsCmdBlockFinishReadCmd\<close> and \<^verbatim>\<open>fsCmdBlockRequeue\<close>, one lemma each.\<close>

lemma fs_negative_Value [simp]: "fs_negative (FS_Value n) \<longleftrightarrow> n < 0"
  by (simp add: fs_negative_def)

lemma uint32_of_FSStatus_Value [simp]: "uint32_of_FSStatus (FS_Value n) = word_of_int n"
  by (simp add: uint32_of_FSStatus_def)

lemma fsCmdBlockFinishReadCmd_complete:
  assumes "0 \<le> n" and "chunkSize (readFile (fs_block w)) \<noteq> 0"
    and "bytesRemaining (readFile (fs_block w)) - word_of_int n = 0 \<or>
         word_of_int n < readSize (readFile (fs_block w))"
  shows "fsCmdBlockFinishReadCmd M w (FS_Value n) =
           fsCmdBlockFinishCmd
             (w\<lparr>fs_block := (fs_block w)\<lparr>readFile := (readFile (fs_block w))
                 \<lparr>bytesRead := bytesRead (readFile (fs_block w)) + word_of_int n,
                  bytesRemaining := bytesRemaining (readFile (fs_block w)) - word_of_int n\<rparr>\<rparr>\<rparr>)
             (FS_Value (sint ((bytesRead (readFile (fs_block w)) + word_of_int n)
                              div chunkSize (readFile (fs_block w)))))"
  using assms by (simp add: fsCmdBlockFinishReadCmd.simps Let_def)

lemma fsCmdBlockFinishReadCmd_continue:
  assumes "0 \<le> n"
    and "\<not> (bytesRemaining (readFile (fs_block w)) - word_of_int n = 0 \<or>
            word_of_int n < readSize (readFile (fs_block w)))"
  shows "fsCmdBlockFinishReadCmd M w (FS_Value n) =
           fsCmdBlockRequeue M
             (w\<lparr>fs_block := (fs_block w)
                 \<lparr>readFile := (readFile (fs_block w))
                    \<lparr>bytesRead := bytesRead (readFile (fs_block w)) + word_of_int n,
                     bytesRemaining := bytesRemaining (readFile (fs_block w)) - word_of_int n,
                     readSize := min M (bytesRemaining (readFile (fs_block w)) - word_of_int n)\<rparr>,
                  shim_readFile := (shim_readFile (fs_block w))
                    \<lparr>req_buffer := req_buffer (shim_readFile (fs_block w)) + word_of_int n,
                     req_size := min M (bytesRemaining (readFile (fs_block w)) - word_of_int n),
                     req_count := 1,
                     req_pos := (if ReadWithPos \<in> req_readFlags (shim_readFile (fs_block w))
                                 then req_pos (shim_readFile (fs_block w)) + word_of_int n
                                 else req_pos (shim_readFile (fs_block w)))\<rparr>,
                  ioctlvVec := (ioctlvVec (fs_block w))
                    [1 := \<lparr>paddr = req_buffer (shim_readFile (fs_block w)) + word_of_int n,
                           len = min M (bytesRemaining (readFile (fs_block w)) - word_of_int n)\<rparr>]\<rparr>\<rparr>)
             False (Some fsCmdBlockFinishReadCmdFn)"
proof -
  from assms(2) have c1: "bytesRemaining (readFile (fs_block w)) - word_of_int n \<noteq> 0"
    and c2: "\<not> word_of_int n < readSize (readFile (fs_block w))"
    and c3: "bytesRemaining (readFile (fs_block w)) \<noteq> word_of_int n" by auto
  show ?thesis
    using assms(1)
    apply (subst fsCmdBlockFinishReadCmd.simps)
    apply (simp only: Let_def fs_negative_Value uint32_of_FSStatus_Value)
    apply (auto simp add: c1 c2 c3 min_def)
    done
qed


lemma fsCmdBlockRequeue_enqueue:
  assumes "Cancelling \<notin> cancelFlags (fs_block w)"
  shows "fsCmdBlockRequeue M w front fn =
           Inr (w\<lparr>fs_block := (fs_block w)\<lparr>finishCmdFn := fn,
                                              blockStatus := FSCmdBlockStatus_QueuedCommand\<rparr>,
                  calls := calls w @
                    [CmdQueueFinishCmd,
                     if front then CmdQueuePushFront (block (fs_block w))
                     else CmdQueueEnqueue (block (fs_block w)) True,
                     CmdQueueProcessCmd]\<rparr>)"
  using assms by (simp add: fsCmdBlockRequeue.simps Let_def add_call_def)

lemma fsCmdBlockRequeue_cancel:
  assumes "Cancelling \<in> cancelFlags (fs_block w)"
  shows "fsCmdBlockRequeue M w front fn =
           fsCmdBlockReplyResult M
             (w\<lparr>fs_block := (fs_block w)\<lparr>cancelFlags := cancelFlags (fs_block w) - {Cancelling},
                                            blockStatus := FSCmdBlockStatus_Cancelled\<rparr>,
                fs_client := (fs_client w)\<lparr>lastDequeuedCommand := None\<rparr>\<rparr>)
             FS_Cancelled"
  using assms by (simp add: fsCmdBlockRequeue.simps Let_def)

lemma fsCmdBlockFinishCmd_ReadFile_delivers:
  assumes "shim_command (fs_block w) = FSA_ReadFile"
    and "ioMsgQueue (asyncData (asyncResult (fs_block w))) = Some q"
    and "length (messages (msgQueues w q)) < slots (msgQueues w q)"
  shows "\<exists>w'. fsCmdBlockFinishCmd w st = Inr w' \<and>
           messages (msgQueues w' q) = messages (msgQueues w q) @ [(block (fs_block w), st)] \<and>
           blockStatus (fs_block w') = FSCmdBlockStatus_Cancelled \<and> calls w' = calls w"
  using assms
  by (simp add: fsCmdBlockFinishCmd_def fsCmdBlockSetResult_def OSSendMessage_def Let_def)

text \<open>
  Claim C5. On a registered client, \<^verbatim>\<open>fsCmdBlockHandleResult\<close> of a block whose FSA status
  is \<^verbatim>\<open>MediaNotReady\<close> returns the state it was given with only the client changed: its
  \<open>lastError\<close> is the FSA status and its state machine is in \<^verbatim>\<open>WrongMedia\<close>. For
  \<^verbatim>\<open>WriteProtected\<close> the state machine is in \<^verbatim>\<open>MediaError\<close>. The block, the message
  queues and the list of queue calls are as before: nothing is delivered to the user.
\<close>

theorem fsCmdBlockHandleResult_media:
  assumes "fsClientRegistered (fs_client w)"
  shows "(fsaStatus (fs_block w) = FSA_Error FSA_MediaNotReady \<longrightarrow>
            fsCmdBlockHandleResult M w =
              Inr (w\<lparr>fs_client := (fs_client w)\<lparr>lastError := FSA_Error FSA_MediaNotReady,
                                                  fsm := FSVolumeState_WrongMedia\<rparr>\<rparr>)) \<and>
         (fsaStatus (fs_block w) = FSA_Error FSA_WriteProtected \<longrightarrow>
            fsCmdBlockHandleResult M w =
              Inr (w\<lparr>fs_client := (fs_client w)\<lparr>lastError := FSA_Error FSA_WriteProtected,
                                                  fsm := FSVolumeState_MediaError\<rparr>\<rparr>))"
  using assms by (simp add: fsCmdBlockHandleResult_def fsmSetState_def Let_def)

text \<open>
  Claim C6. \<^verbatim>\<open>fsCmdBlockPrepareAsync\<close> returns \<^verbatim>\<open>FatalError\<close> when the block status is
  neither \<^verbatim>\<open>Initialised\<close> nor \<^verbatim>\<open>Cancelled\<close>, and when the async data carries both a user
  callback and a message queue. In both cases the state is returned as it was given: no
  error mask and no client link are stamped on the block, and no message queue has a new
  entry.
\<close>

theorem fsCmdBlockPrepareAsync_fatal:
  "(blockStatus (fs_block w) \<noteq> FSCmdBlockStatus_Initialised \<and>
    blockStatus (fs_block w) \<noteq> FSCmdBlockStatus_Cancelled \<longrightarrow>
      fsCmdBlockPrepareAsync asyncResultInit w errMask async = (FS_FatalError, w)) \<and>
   (userCallback async \<noteq> None \<and> ioMsgQueue async \<noteq> None \<longrightarrow>
      fsCmdBlockPrepareAsync asyncResultInit w errMask async = (FS_FatalError, w))"
  by (simp add: fsCmdBlockPrepareAsync_def Let_def)

text \<open>The \<^verbatim>\<open>switch\<close> against the table of the specification, and the reply path.\<close>

lemma spec_status_table_None:
  "spec_status_table e = None \<longleftrightarrow>
     e \<in> {FSA_Busy, FSA_InvalidMedia, FSA_MediaNotReady, FSA_WriteProtected,
           FSA_DataCorrupted, FSA_MediaError}"
  by (cases e) (simp_all add: spec_status_table_def)

lemma spec_status_table_negative:
  "spec_status_table e = Some (st, flags) \<Longrightarrow> fs_negative st"
  by (auto simp: spec_status_table_def fs_negative_def split: if_splits)

lemma spec_status_table_switch:
  "spec_status_table e = Some (st, flags) \<Longrightarrow>
   fsCmdBlockHandleResult_switch (FSA_Error e) (FS_FromFSA e) FSErrorFlag_All = Translated st flags"
  by (cases e) (simp_all add: spec_status_table_def fsCmdBlockHandleResult_switch_def)

lemma spec_status_table_not_media:
  "spec_status_table e = Some (st, flags) \<Longrightarrow> e \<noteq> FSA_MediaNotReady \<and> e \<noteq> FSA_WriteProtected"
  by (auto simp: spec_status_table_def)


lemma fsCmdBlockFinishReadCmd_negative:
  "fs_negative st \<Longrightarrow> fsCmdBlockFinishReadCmd M w st = fsCmdBlockFinishCmd w st"
  by (simp add: fsCmdBlockFinishReadCmd.simps)

lemma fsCmdBlockReplyResult_negative:
  assumes "fs_negative st" and "finishCmdFn (fs_block w) = Some fn"
  shows "fsCmdBlockReplyResult M w st =
           (case fsCmdBlockFinishCmd (add_call CmdQueueFinishCmd w) st of
              Inl fault \<Rightarrow> Inl fault
            | Inr w2 \<Rightarrow> Inr (add_call CmdQueueProcessCmd w2))"
  using assms
  by (cases fn) (simp_all add: fsCmdBlockReplyResult.simps add_call_def fsCmdBlockFinishReadCmd_negative)

lemma fsCmdBlockFinishCmd_negative_delivers:
  assumes "fs_negative st"
    and "ioMsgQueue (asyncData (asyncResult (fs_block w))) = Some q"
    and "length (messages (msgQueues w q)) < slots (msgQueues w q)"
  shows "\<exists>w'. fsCmdBlockFinishCmd w st = Inr w' \<and>
           messages (msgQueues w' q) = messages (msgQueues w q) @ [(block (fs_block w), st)] \<and>
           fsm (fs_client w') = fsm (fs_client w) \<and> calls w' = calls w \<and>
           blockStatus (fs_block w') = FSCmdBlockStatus_Cancelled"
  using assms
  by (simp add: fsCmdBlockFinishCmd_def fsCmdBlockSetResult_def OSSendMessage_def Let_def)

lemma fsCmdBlockReplyResult_delivers:
  assumes "fs_negative st" and "finishCmdFn (fs_block w) = Some fn"
    and "ioMsgQueue (asyncData (asyncResult (fs_block w))) = Some q"
    and "length (messages (msgQueues w q)) < slots (msgQueues w q)"
  shows "\<exists>w'. fsCmdBlockReplyResult M w st = Inr w' \<and>
           messages (msgQueues w' q) = messages (msgQueues w q) @ [(block (fs_block w), st)] \<and>
           fsm (fs_client w') = fsm (fs_client w) \<and>
           calls w' = calls w @ [CmdQueueFinishCmd, CmdQueueProcessCmd] \<and>
           blockStatus (fs_block w') = FSCmdBlockStatus_Cancelled"
proof -
  let ?w1 = "add_call CmdQueueFinishCmd w"
  have "ioMsgQueue (asyncData (asyncResult (fs_block ?w1))) = Some q"
    and "length (messages (msgQueues ?w1 q)) < slots (msgQueues ?w1 q)"
    using assms(3,4) by (simp_all add: add_call_def)
  from fsCmdBlockFinishCmd_negative_delivers [OF assms(1) this]
  obtain w2 where f: "fsCmdBlockFinishCmd ?w1 st = Inr w2"
    and m: "messages (msgQueues w2 q) = messages (msgQueues ?w1 q) @ [(block (fs_block ?w1), st)]"
    and s: "fsm (fs_client w2) = fsm (fs_client ?w1)"
    and c: "calls w2 = calls ?w1"
    and b: "blockStatus (fs_block w2) = FSCmdBlockStatus_Cancelled" by blast
  have "fsCmdBlockReplyResult M w st = Inr (add_call CmdQueueProcessCmd w2)"
    using fsCmdBlockReplyResult_negative [OF assms(1,2), of M] f by simp
  moreover have "messages (msgQueues (add_call CmdQueueProcessCmd w2) q) =
      messages (msgQueues w q) @ [(block (fs_block w), st)]"
    using m by (simp add: add_call_def)
  moreover have "fsm (fs_client (add_call CmdQueueProcessCmd w2)) = fsm (fs_client w)"
    using s by (simp add: add_call_def)
  moreover have "calls (add_call CmdQueueProcessCmd w2) =
      calls w @ [CmdQueueFinishCmd, CmdQueueProcessCmd]"
    using c by (simp add: add_call_def)
  moreover have "blockStatus (fs_block (add_call CmdQueueProcessCmd w2)) = FSCmdBlockStatus_Cancelled"
    using b by (simp add: add_call_def)
  ultimately show ?thesis by blast
qed

lemma fsCmdBlockHandleResult_table:
  assumes "fsClientRegistered (fs_client w)"
    and "fsaStatus (fs_block w) = FSA_Error e"
    and "spec_status_table e = Some (st, flags)"
  shows "fsCmdBlockHandleResult M w =
           (if errorMask (fs_block w) \<inter> flags \<noteq> {}
            then Inr (w\<lparr>fs_client := (fs_client w)\<lparr>lastError := FSA_Error e,
                                                    fsm := FSVolumeState_Fatal\<rparr>\<rparr>)
            else fsCmdBlockReplyResult M
                   (w\<lparr>fs_client :=
                        (if lastDequeuedCommand (fs_client w) = Some (block (fs_block w))
                         then (fs_client w)\<lparr>lastError := FSA_Error e, lastDequeuedCommand := None\<rparr>
                         else (fs_client w)\<lparr>lastError := FSA_Error e\<rparr>)\<rparr>) st)"
  using assms spec_status_table_switch [OF assms(3)] spec_status_table_not_media [OF assms(3)]
  by (simp add: fsCmdBlockHandleResult_def Let_def fsa_negative_def FSStatus_of_FSAStatus_def
      fsmEnterState_def)

text \<open>The 300 KB read, reply by reply.\<close>

lemma read_first_reply:
  "fsCmdBlockFinishReadCmd 262144 read_world (FS_Value 262144) =
     Inr (read_world
           \<lparr>fs_block := read_block
              \<lparr>readFile := \<lparr>bytesRead = 262144, bytesRemaining = 45056, readSize = 45056,
                             chunkSize = 4096\<rparr>,
               shim_readFile := \<lparr>req_buffer = 0x10040000, req_size = 45056, req_count = 1,
                                  req_pos = 262144, req_readFlags = {ReadWithPos}\<rparr>,
               ioctlvVec := [\<lparr>paddr = 0, len = 0\<rparr>, \<lparr>paddr = 0x10040000, len = 45056\<rparr>,
                             \<lparr>paddr = 0, len = 0\<rparr>],
               finishCmdFn := Some fsCmdBlockFinishReadCmdFn,
               blockStatus := FSCmdBlockStatus_QueuedCommand\<rparr>,
            calls := [CmdQueueFinishCmd, CmdQueueEnqueue 7 True, CmdQueueProcessCmd]\<rparr>)"
proof -
  have n: "(0::int) \<le> 262144" by simp
  have c: "\<not> (bytesRemaining (readFile (fs_block read_world)) - word_of_int 262144 = 0 \<or>
               word_of_int 262144 < readSize (readFile (fs_block read_world)))"
    by (simp add: read_world_def read_block_def)
  have k: "Cancelling \<notin> cancelFlags (fs_block read_world)"
    by (simp add: read_world_def read_block_def)
  show ?thesis
    unfolding fsCmdBlockFinishReadCmd_continue [OF n c]
    by (subst fsCmdBlockRequeue_enqueue) (simp_all add: read_world_def read_block_def)
qed


text \<open>C5 on the read example, with the FSA status set to each of the two media statuses.\<close>

theorem fsCmdBlockHandleResult_media_witness:
  "fsClientRegistered (fs_client (with_fsaStatus (FSA_Error FSA_MediaNotReady) read_world)) \<and>
   fsCmdBlockHandleResult 262144 (with_fsaStatus (FSA_Error FSA_MediaNotReady) read_world) =
     Inr ((with_fsaStatus (FSA_Error FSA_MediaNotReady) read_world)
            \<lparr>fs_client := read_client\<lparr>lastError := FSA_Error FSA_MediaNotReady,
                                        fsm := FSVolumeState_WrongMedia\<rparr>\<rparr>) \<and>
   fsCmdBlockHandleResult 262144 (with_fsaStatus (FSA_Error FSA_WriteProtected) read_world) =
     Inr ((with_fsaStatus (FSA_Error FSA_WriteProtected) read_world)
            \<lparr>fs_client := read_client\<lparr>lastError := FSA_Error FSA_WriteProtected,
                                        fsm := FSVolumeState_MediaError\<rparr>\<rparr>)"
proof -
  have r: "\<And>s. fsClientRegistered (fs_client (with_fsaStatus s read_world))"
    by (simp add: fsClientRegistered_def with_fsaStatus_def read_world_def read_client_def)
  have c: "\<And>s. fs_client (with_fsaStatus s read_world) = read_client"
    by (simp add: with_fsaStatus_def read_world_def)
  have s: "\<And>s. fsaStatus (fs_block (with_fsaStatus s read_world)) = s"
    by (simp add: with_fsaStatus_def)
  from fsCmdBlockHandleResult_media [OF r, of "FSA_Error FSA_MediaNotReady" 262144]
       fsCmdBlockHandleResult_media [OF r, of "FSA_Error FSA_WriteProtected" 262144]
  show ?thesis using r by (simp add: c s)
qed

text \<open>
  C6 on a block that is still queued, and on an initialised block prepared with both a
  callback and a message queue.
\<close>

theorem fsCmdBlockPrepareAsync_fatal_witness:
  "blockStatus (fs_block read_world) \<noteq> FSCmdBlockStatus_Initialised \<and>
   blockStatus (fs_block read_world) \<noteq> FSCmdBlockStatus_Cancelled \<and>
   fsCmdBlockPrepareAsync (\<lambda>w a. (FS_Value 0, w)) read_world {}
     \<lparr>userCallback = None, ioMsgQueue = Some 0\<rparr> = (FS_FatalError, read_world) \<and>
   fsCmdBlockPrepareAsync (\<lambda>w a. (FS_Value 0, w))
     (read_world\<lparr>fs_block := read_block\<lparr>blockStatus := FSCmdBlockStatus_Initialised\<rparr>\<rparr>) {}
     \<lparr>userCallback = Some 3, ioMsgQueue = Some 0\<rparr> =
       (FS_FatalError, read_world\<lparr>fs_block := read_block\<lparr>blockStatus := FSCmdBlockStatus_Initialised\<rparr>\<rparr>)"
proof -
  have b: "blockStatus (fs_block read_world) \<noteq> FSCmdBlockStatus_Initialised \<and>
           blockStatus (fs_block read_world) \<noteq> FSCmdBlockStatus_Cancelled"
    by (simp add: read_world_def read_block_def)
  have u: "userCallback \<lparr>userCallback = Some 3, ioMsgQueue = Some (0::nat)\<rparr> \<noteq> None \<and>
           ioMsgQueue \<lparr>userCallback = Some (3::nat), ioMsgQueue = Some 0\<rparr> \<noteq> None"
    by simp
  from fsCmdBlockPrepareAsync_fatal
         [of read_world "\<lambda>w a. (FS_Value 0, w)" "{}" "\<lparr>userCallback = None, ioMsgQueue = Some 0\<rparr>"]
       fsCmdBlockPrepareAsync_fatal
         [of "read_world\<lparr>fs_block := read_block\<lparr>blockStatus := FSCmdBlockStatus_Initialised\<rparr>\<rparr>"
             "\<lambda>w a. (FS_Value 0, w)" "{}" "\<lparr>userCallback = Some 3, ioMsgQueue = Some 0\<rparr>"]
       b u
  show ?thesis by simp
qed

text \<open>
  Claim C1, as stated for every command block, fails on a client that is not registered:
  there \<^verbatim>\<open>fsCmdBlockHandleResult\<close> translates nothing. With the FSA status
  \<^verbatim>\<open>StorageFull\<close> and an error mask that includes StorageFull, it calls the block's finish
  function with \<^verbatim>\<open>FSStatus::Cancelled\<close> and returns: the user's queue receives
  \<^verbatim>\<open>Cancelled\<close>, the state machine stays in \<^verbatim>\<open>Ready\<close> (not \<^verbatim>\<open>Fatal\<close>), and no queue
  function is called (the reply path is not taken).
\<close>

theorem fsCmdBlockHandleResult_unregistered:
  "\<not> fsClientRegistered (fs_client unregistered_world) \<and>
   fsaStatus (fs_block unregistered_world) = FSA_Error FSA_StorageFull \<and>
   errorMask (fs_block unregistered_world) = {Err_StorageFull} \<and>
   fsCmdBlockHandleResult 262144 unregistered_world = Inr unregistered_result \<and>
   messages (msgQueues unregistered_result 0) = [(7, FS_Cancelled)] \<and>
   fsm (fs_client unregistered_result) = FSVolumeState_Ready \<and>
   lastError (fs_client unregistered_result) = FSA_Value 0 \<and>
   calls unregistered_result = []"
proof -
  let ?w = unregistered_world
  have facts:
    "\<not> fsClientRegistered (fs_client ?w)"
    "fsaStatus (fs_block ?w) = FSA_Error FSA_StorageFull"
    "errorMask (fs_block ?w) = {Err_StorageFull}"
    "finishCmdFn (fs_block ?w) = Some fsCmdBlockFinishReadCmdFn"
    "ioMsgQueue (asyncData (asyncResult (fs_block ?w))) = Some 0"
    "msgQueues ?w 0 = \<lparr>messages = [], slots = 1\<rparr>"
    "block (fs_block ?w) = 7" "fsm (fs_client ?w) = FSVolumeState_Ready" "calls ?w = []"
    "lastError (fs_client ?w) = FSA_Value 0"
    by (simp_all add: unregistered_world_def with_unregistered_def with_fsaStatus_def
        fsClientRegistered_def read_world_def read_block_def read_client_def)
  have neg: "fs_negative FS_Cancelled" by (simp add: fs_negative_def)
  have h: "fsCmdBlockHandleResult 262144 ?w = fsCmdBlockFinishCmd ?w FS_Cancelled"
    using facts(1,4) neg
    by (simp add: fsCmdBlockHandleResult_def Let_def fsCmdBlockFinishReadCmd_negative)
  have room: "length (messages (msgQueues ?w 0)) < slots (msgQueues ?w 0)"
    by (simp add: facts)
  have le: "\<And>w'. fsCmdBlockFinishCmd ?w FS_Cancelled = Inr w' \<Longrightarrow>
              lastError (fs_client w') = lastError (fs_client ?w)"
    by (auto simp: fsCmdBlockFinishCmd_def fsCmdBlockSetResult_def OSSendMessage_def Let_def
        fs_negative_def split: option.splits if_splits)
  from fsCmdBlockFinishCmd_negative_delivers [OF neg facts(5) room]
  obtain w' where r: "fsCmdBlockFinishCmd ?w FS_Cancelled = Inr w'"
    and m: "messages (msgQueues w' 0) = messages (msgQueues ?w 0) @ [(block (fs_block ?w), FS_Cancelled)]"
    and f: "fsm (fs_client w') = fsm (fs_client ?w)"
    and c: "calls w' = calls ?w" by blast
  from r h have u: "unregistered_result = w'" by (simp add: unregistered_result_def)
  from r h m f c le [OF r] facts show ?thesis unfolding u by simp
qed

text \<open>
  Claim C1, amended: on a registered client. For a block whose FSA status has a row with
  an FSStatus in the table of section 4.7: if the block's error mask meets the error flags
  of the row, \<^verbatim>\<open>fsCmdBlockHandleResult\<close> returns with the client's state machine in
  \<^verbatim>\<open>Fatal\<close> and nothing else changed but \<open>lastError\<close> (no reply, no message); otherwise
  it is \<^verbatim>\<open>fsCmdBlockReplyResult\<close> with the FSStatus of the row, after \<open>lastError\<close> is set
  and \<open>lastDequeuedCommand\<close> is cleared if it is this block. In the second case, when the
  block has a finish function and its message queue has room, the message (block,
  FSStatus) is appended to that queue and the state machine is where it was.
\<close>

theorem fsCmdBlockHandleResult_translates:
  assumes "fsClientRegistered (fs_client w)"
    and "fsaStatus (fs_block w) = FSA_Error e"
    and "spec_status_table e = Some (st, flags)"
  shows "fsCmdBlockHandleResult M w =
           (if errorMask (fs_block w) \<inter> flags \<noteq> {}
            then Inr (w\<lparr>fs_client := (fs_client w)\<lparr>lastError := FSA_Error e,
                                                    fsm := FSVolumeState_Fatal\<rparr>\<rparr>)
            else fsCmdBlockReplyResult M
                   (w\<lparr>fs_client :=
                        (if lastDequeuedCommand (fs_client w) = Some (block (fs_block w))
                         then (fs_client w)\<lparr>lastError := FSA_Error e, lastDequeuedCommand := None\<rparr>
                         else (fs_client w)\<lparr>lastError := FSA_Error e\<rparr>)\<rparr>) st) \<and>
         (errorMask (fs_block w) \<inter> flags = {} \<and> finishCmdFn (fs_block w) \<noteq> None \<and>
          ioMsgQueue (asyncData (asyncResult (fs_block w))) = Some q \<and>
          length (messages (msgQueues w q)) < slots (msgQueues w q) \<longrightarrow>
            (\<exists>w'. fsCmdBlockHandleResult M w = Inr w' \<and>
                   messages (msgQueues w' q) = messages (msgQueues w q) @ [(block (fs_block w), st)] \<and>
                   fsm (fs_client w') = fsm (fs_client w)))"
proof -
  let ?w1 = "w\<lparr>fs_client :=
                (if lastDequeuedCommand (fs_client w) = Some (block (fs_block w))
                 then (fs_client w)\<lparr>lastError := FSA_Error e, lastDequeuedCommand := None\<rparr>
                 else (fs_client w)\<lparr>lastError := FSA_Error e\<rparr>)\<rparr>"
  note eq = fsCmdBlockHandleResult_table [OF assms, of M]
  have del: "\<exists>w'. fsCmdBlockHandleResult M w = Inr w' \<and>
                   messages (msgQueues w' q) = messages (msgQueues w q) @ [(block (fs_block w), st)] \<and>
                   fsm (fs_client w') = fsm (fs_client w)"
    if m: "errorMask (fs_block w) \<inter> flags = {}"
      and f: "finishCmdFn (fs_block w) \<noteq> None"
      and qq: "ioMsgQueue (asyncData (asyncResult (fs_block w))) = Some q"
      and room: "length (messages (msgQueues w q)) < slots (msgQueues w q)"
  proof -
    from f obtain fn where fn: "finishCmdFn (fs_block ?w1) = Some fn" by auto
    have q1: "ioMsgQueue (asyncData (asyncResult (fs_block ?w1))) = Some q" using qq by simp
    have r1: "length (messages (msgQueues ?w1 q)) < slots (msgQueues ?w1 q)" using room by simp
    from fsCmdBlockReplyResult_delivers [OF spec_status_table_negative [OF assms(3)] fn q1 r1, of M]
    obtain w' where "fsCmdBlockReplyResult M ?w1 st = Inr w'"
      and "messages (msgQueues w' q) = messages (msgQueues ?w1 q) @ [(block (fs_block ?w1), st)]"
      and "fsm (fs_client w') = fsm (fs_client ?w1)" by blast
    with eq m show ?thesis by auto
  qed
  from eq del show ?thesis by blast
qed


text \<open>
  The amended C1 at scenario 7 of section 8: \<^verbatim>\<open>StorageFull\<close> with an error mask that includes
  StorageFull (Fatal, nothing delivered), and with an empty mask (the user's queue
  receives \<^verbatim>\<open>FSStatus::StorageFull\<close>, the state machine stays Ready).
\<close>

theorem fsCmdBlockHandleResult_translates_witness:
  "fsClientRegistered (fs_client (with_fsaStatus (FSA_Error FSA_StorageFull) read_world)) \<and>
   spec_status_table FSA_StorageFull = Some (FS_StorageFull, {Err_StorageFull}) \<and>
   fsCmdBlockHandleResult 262144 (with_fsaStatus (FSA_Error FSA_StorageFull) read_world) =
     Inr ((with_fsaStatus (FSA_Error FSA_StorageFull) read_world)
            \<lparr>fs_client := read_client\<lparr>lastError := FSA_Error FSA_StorageFull,
                                        fsm := FSVolumeState_Fatal\<rparr>\<rparr>) \<and>
   (\<exists>w'. fsCmdBlockHandleResult 262144
            (with_errorMask {} (with_fsaStatus (FSA_Error FSA_StorageFull) read_world)) = Inr w' \<and>
         messages (msgQueues w' 0) = [(7, FS_StorageFull)] \<and>
         fsm (fs_client w') = FSVolumeState_Ready)"
proof -
  let ?w = "with_fsaStatus (FSA_Error FSA_StorageFull) read_world"
  let ?v = "with_errorMask {} ?w"
  have r: "fsClientRegistered (fs_client ?w)" "fsClientRegistered (fs_client ?v)"
    by (simp_all add: fsClientRegistered_def with_fsaStatus_def with_errorMask_def
        read_world_def read_client_def)
  have s: "fsaStatus (fs_block ?w) = FSA_Error FSA_StorageFull"
      "fsaStatus (fs_block ?v) = FSA_Error FSA_StorageFull"
    by (simp_all add: with_fsaStatus_def with_errorMask_def)
  have t: "spec_status_table FSA_StorageFull = Some (FS_StorageFull, {Err_StorageFull})"
    by (simp add: spec_status_table_def)
  have facts:
    "errorMask (fs_block ?w) = {Err_StorageFull}" "fs_client ?w = read_client"
    "errorMask (fs_block ?v) = {}" "finishCmdFn (fs_block ?v) \<noteq> None"
    "ioMsgQueue (asyncData (asyncResult (fs_block ?v))) = Some 0"
    "msgQueues ?v 0 = \<lparr>messages = [], slots = 1\<rparr>"
    "block (fs_block ?v) = 7" "fsm (fs_client ?v) = FSVolumeState_Ready"
    by (simp_all add: with_fsaStatus_def with_errorMask_def read_world_def read_block_def
        read_client_def)
  from fsCmdBlockHandleResult_translates [OF r(1) s(1) t, of 262144 0, THEN conjunct1]
  have fatal: "fsCmdBlockHandleResult 262144 ?w =
     Inr (?w\<lparr>fs_client := read_client\<lparr>lastError := FSA_Error FSA_StorageFull,
                                          fsm := FSVolumeState_Fatal\<rparr>\<rparr>)"
    by (simp add: facts)
  from fsCmdBlockHandleResult_translates [OF r(2) s(2) t, of 262144 0, THEN conjunct2]
  have seen: "\<exists>w'. fsCmdBlockHandleResult 262144 ?v = Inr w' \<and>
         messages (msgQueues w' 0) = [(7, FS_StorageFull)] \<and>
         fsm (fs_client w') = FSVolumeState_Ready"
    by (simp add: facts)
  from r(1) t fatal seen show ?thesis by blast
qed


text \<open>
  Claim C3, amended. For a reply of \<open>n \<ge> 0\<close> bytes that does not complete the read
  (\<open>bytesRemaining\<close> is not 0 afterwards and \<open>n\<close> is not below \<open>readSize\<close>): when the
  block is not being cancelled, \<^verbatim>\<open>fsCmdBlockFinishReadCmd\<close> sets \<open>readSize\<close> to the
  minimum of \<open>M\<close> and \<open>bytesRemaining\<close>, advances the request's buffer by \<open>n\<close>, sets its
  size to \<open>readSize\<close> and its count to 1, advances its position by \<open>n\<close> if
  \<^verbatim>\<open>ReadWithPos\<close> is set, rewrites ioctlv vector slot 1, sets the finish function to
  \<^verbatim>\<open>fsCmdBlockFinishReadCmdFn\<close> and the status to \<^verbatim>\<open>QueuedCommand\<close>, and enqueues the
  block with \<^verbatim>\<open>fsCmdQueueEnqueue(queue, block, true)\<close> (not with
  \<^verbatim>\<open>fsCmdQueuePushFront\<close>) between \<^verbatim>\<open>fsCmdQueueFinishCmd\<close> and
  \<^verbatim>\<open>fsCmdQueueProcessCmd\<close>. When the block is being cancelled it is not queued: the
  cancelling flag is cleared, the block is marked \<^verbatim>\<open>Cancelled\<close> and
  \<^verbatim>\<open>FSStatus::Cancelled\<close> goes through \<^verbatim>\<open>fsCmdBlockReplyResult\<close>.
\<close>

theorem fsCmdBlockFinishReadCmd_continuation:
  assumes "0 \<le> n"
    and "\<not> (bytesRemaining (readFile (fs_block w)) - word_of_int n = 0 \<or>
            word_of_int n < readSize (readFile (fs_block w)))"
  shows "(Cancelling \<notin> cancelFlags (fs_block w) \<longrightarrow>
          fsCmdBlockFinishReadCmd M w (FS_Value n) =
            Inr (w\<lparr>fs_block := (fs_block w)
                 \<lparr>readFile := (readFile (fs_block w))
                    \<lparr>bytesRead := bytesRead (readFile (fs_block w)) + word_of_int n,
                     bytesRemaining := bytesRemaining (readFile (fs_block w)) - word_of_int n,
                     readSize := min M (bytesRemaining (readFile (fs_block w)) - word_of_int n)\<rparr>,
                  shim_readFile := (shim_readFile (fs_block w))
                    \<lparr>req_buffer := req_buffer (shim_readFile (fs_block w)) + word_of_int n,
                     req_size := min M (bytesRemaining (readFile (fs_block w)) - word_of_int n),
                     req_count := 1,
                     req_pos := (if ReadWithPos \<in> req_readFlags (shim_readFile (fs_block w))
                                 then req_pos (shim_readFile (fs_block w)) + word_of_int n
                                 else req_pos (shim_readFile (fs_block w)))\<rparr>,
                  ioctlvVec := (ioctlvVec (fs_block w))
                    [1 := \<lparr>paddr = req_buffer (shim_readFile (fs_block w)) + word_of_int n,
                           len = min M (bytesRemaining (readFile (fs_block w)) - word_of_int n)\<rparr>],
                  finishCmdFn := Some fsCmdBlockFinishReadCmdFn,
                  blockStatus := FSCmdBlockStatus_QueuedCommand\<rparr>,
                calls := calls w @ [CmdQueueFinishCmd, CmdQueueEnqueue (block (fs_block w)) True,
                                    CmdQueueProcessCmd]\<rparr>)) \<and>
         (Cancelling \<in> cancelFlags (fs_block w) \<longrightarrow>
          fsCmdBlockFinishReadCmd M w (FS_Value n) =
            fsCmdBlockReplyResult M
             (w\<lparr>fs_block := (fs_block w)
                 \<lparr>readFile := (readFile (fs_block w))
                    \<lparr>bytesRead := bytesRead (readFile (fs_block w)) + word_of_int n,
                     bytesRemaining := bytesRemaining (readFile (fs_block w)) - word_of_int n,
                     readSize := min M (bytesRemaining (readFile (fs_block w)) - word_of_int n)\<rparr>,
                  shim_readFile := (shim_readFile (fs_block w))
                    \<lparr>req_buffer := req_buffer (shim_readFile (fs_block w)) + word_of_int n,
                     req_size := min M (bytesRemaining (readFile (fs_block w)) - word_of_int n),
                     req_count := 1,
                     req_pos := (if ReadWithPos \<in> req_readFlags (shim_readFile (fs_block w))
                                 then req_pos (shim_readFile (fs_block w)) + word_of_int n
                                 else req_pos (shim_readFile (fs_block w)))\<rparr>,
                  ioctlvVec := (ioctlvVec (fs_block w))
                    [1 := \<lparr>paddr = req_buffer (shim_readFile (fs_block w)) + word_of_int n,
                           len = min M (bytesRemaining (readFile (fs_block w)) - word_of_int n)\<rparr>],
                  cancelFlags := cancelFlags (fs_block w) - {Cancelling},
                  blockStatus := FSCmdBlockStatus_Cancelled\<rparr>,
                fs_client := (fs_client w)\<lparr>lastDequeuedCommand := None\<rparr>\<rparr>)
             FS_Cancelled)"
  unfolding fsCmdBlockFinishReadCmd_continue [OF assms]
  by (simp add: fsCmdBlockRequeue_enqueue fsCmdBlockRequeue_cancel del: One_nat_def)


lemma read_world_second_eq:
  "read_world_second =
     read_world
       \<lparr>fs_block := read_block
          \<lparr>readFile := \<lparr>bytesRead = 262144, bytesRemaining = 45056, readSize = 45056,
                         chunkSize = 4096\<rparr>,
           shim_readFile := \<lparr>req_buffer = 0x10040000, req_size = 45056, req_count = 1,
                              req_pos = 262144, req_readFlags = {ReadWithPos}\<rparr>,
           ioctlvVec := [\<lparr>paddr = 0, len = 0\<rparr>, \<lparr>paddr = 0x10040000, len = 45056\<rparr>,
                         \<lparr>paddr = 0, len = 0\<rparr>],
           finishCmdFn := Some fsCmdBlockFinishReadCmdFn,
           blockStatus := FSCmdBlockStatus_QueuedCommand\<rparr>,
        calls := [CmdQueueFinishCmd, CmdQueueEnqueue 7 True, CmdQueueProcessCmd]\<rparr>"
  by (simp add: read_world_second_def read_first_reply)

text \<open>A continuation on a block that is being cancelled posts \<^verbatim>\<open>FSStatus::Cancelled\<close>.\<close>

lemma fsCmdBlockFinishReadCmd_cancelled_delivers:
  assumes "0 \<le> n"
    and "\<not> (bytesRemaining (readFile (fs_block w)) - word_of_int n = 0 \<or>
            word_of_int n < readSize (readFile (fs_block w)))"
    and "Cancelling \<in> cancelFlags (fs_block w)"
    and "finishCmdFn (fs_block w) = Some fn"
    and "ioMsgQueue (asyncData (asyncResult (fs_block w))) = Some q"
    and "length (messages (msgQueues w q)) < slots (msgQueues w q)"
  shows "\<exists>w'. fsCmdBlockFinishReadCmd M w (FS_Value n) = Inr w' \<and>
           messages (msgQueues w' q) = messages (msgQueues w q) @ [(block (fs_block w), FS_Cancelled)] \<and>
           calls w' = calls w @ [CmdQueueFinishCmd, CmdQueueProcessCmd] \<and>
           blockStatus (fs_block w') = FSCmdBlockStatus_Cancelled"
proof -
  let ?w2 = "(w\<lparr>fs_block := (fs_block w)
                 \<lparr>readFile := (readFile (fs_block w))
                    \<lparr>bytesRead := bytesRead (readFile (fs_block w)) + word_of_int n,
                     bytesRemaining := bytesRemaining (readFile (fs_block w)) - word_of_int n,
                     readSize := min M (bytesRemaining (readFile (fs_block w)) - word_of_int n)\<rparr>,
                  shim_readFile := (shim_readFile (fs_block w))
                    \<lparr>req_buffer := req_buffer (shim_readFile (fs_block w)) + word_of_int n,
                     req_size := min M (bytesRemaining (readFile (fs_block w)) - word_of_int n),
                     req_count := 1,
                     req_pos := (if ReadWithPos \<in> req_readFlags (shim_readFile (fs_block w))
                                 then req_pos (shim_readFile (fs_block w)) + word_of_int n
                                 else req_pos (shim_readFile (fs_block w)))\<rparr>,
                  ioctlvVec := (ioctlvVec (fs_block w))
                    [1 := \<lparr>paddr = req_buffer (shim_readFile (fs_block w)) + word_of_int n,
                           len = min M (bytesRemaining (readFile (fs_block w)) - word_of_int n)\<rparr>],
                  cancelFlags := cancelFlags (fs_block w) - {Cancelling},
                  blockStatus := FSCmdBlockStatus_Cancelled\<rparr>,
                fs_client := (fs_client w)\<lparr>lastDequeuedCommand := None\<rparr>\<rparr>)"
  have step: "fsCmdBlockFinishReadCmd M w (FS_Value n) = fsCmdBlockReplyResult M ?w2 FS_Cancelled"
    unfolding fsCmdBlockFinishReadCmd_continue [OF assms(1,2)]
    using assms(3) by (simp add: fsCmdBlockRequeue_cancel del: One_nat_def)
  have neg: "fs_negative FS_Cancelled" by (simp add: fs_negative_def)
  have f: "finishCmdFn (fs_block ?w2) = Some fn" using assms(4) by simp
  have qq: "ioMsgQueue (asyncData (asyncResult (fs_block ?w2))) = Some q" using assms(5) by simp
  have room: "length (messages (msgQueues ?w2 q)) < slots (msgQueues ?w2 q)" using assms(6) by simp
  from fsCmdBlockReplyResult_delivers [OF neg f qq room, of M]
  obtain w' where "fsCmdBlockReplyResult M ?w2 FS_Cancelled = Inr w'"
    and "messages (msgQueues w' q) = messages (msgQueues ?w2 q) @ [(block (fs_block ?w2), FS_Cancelled)]"
    and "calls w' = calls ?w2 @ [CmdQueueFinishCmd, CmdQueueProcessCmd]"
    and "blockStatus (fs_block w') = FSCmdBlockStatus_Cancelled" by blast
  then show ?thesis unfolding step by simp
qed

lemma read_cancelled_reply:
  "fsCmdBlockFinishReadCmd 262144 (with_cancelling read_world) (FS_Value 262144) =
     Inr read_world_cancelled \<and>
   calls read_world_cancelled = [CmdQueueFinishCmd, CmdQueueProcessCmd] \<and>
   blockStatus (fs_block read_world_cancelled) = FSCmdBlockStatus_Cancelled \<and>
   messages (msgQueues read_world_cancelled 0) = [(7, FS_Cancelled)]"
proof -
  let ?w = "with_cancelling read_world"
  have n: "(0::int) \<le> 262144" by simp
  have c: "\<not> (bytesRemaining (readFile (fs_block ?w)) - word_of_int 262144 = 0 \<or>
               word_of_int 262144 < readSize (readFile (fs_block ?w)))"
    by (simp add: with_cancelling_def read_world_def read_block_def)
  have k: "Cancelling \<in> cancelFlags (fs_block ?w)"
    by (simp add: with_cancelling_def)
  have f: "finishCmdFn (fs_block ?w) = Some fsCmdBlockFinishReadCmdFn"
    by (simp add: with_cancelling_def read_world_def read_block_def)
  have qq: "ioMsgQueue (asyncData (asyncResult (fs_block ?w))) = Some 0"
    by (simp add: with_cancelling_def read_world_def read_block_def)
  have room: "length (messages (msgQueues ?w 0)) < slots (msgQueues ?w 0)"
    by (simp add: with_cancelling_def read_world_def)
  have facts: "messages (msgQueues ?w 0) = []" "block (fs_block ?w) = 7" "calls ?w = []"
    by (simp_all add: with_cancelling_def read_world_def read_block_def)
  from fsCmdBlockFinishReadCmd_cancelled_delivers [OF n c k f qq room, of 262144]
  obtain w' where r: "fsCmdBlockFinishReadCmd 262144 ?w (FS_Value 262144) = Inr w'"
    and m: "messages (msgQueues w' 0) = [(7, FS_Cancelled)]"
    and cl: "calls w' = [CmdQueueFinishCmd, CmdQueueProcessCmd]"
    and b: "blockStatus (fs_block w') = FSCmdBlockStatus_Cancelled"
    unfolding facts by auto
  from r have "read_world_cancelled = w'" by (simp add: read_world_cancelled_def)
  with r m cl b show ?thesis by simp
qed


text \<open>
  A full reply that does not complete the read, on a block that is not being cancelled:
  the block is queued again and nothing is posted.
\<close>

lemma fsCmdBlockFinishReadCmd_requeued:
  assumes "0 \<le> n"
    and "\<not> (bytesRemaining (readFile (fs_block w)) - word_of_int n = 0 \<or>
            word_of_int n < readSize (readFile (fs_block w)))"
    and "Cancelling \<notin> cancelFlags (fs_block w)"
  shows "\<exists>w'. fsCmdBlockFinishReadCmd M w (FS_Value n) = Inr w' \<and>
           msgQueues w' = msgQueues w \<and>
           asyncResult (fs_block w') = asyncResult (fs_block w) \<and>
           blockStatus (fs_block w') = FSCmdBlockStatus_QueuedCommand \<and>
           finishCmdFn (fs_block w') = Some fsCmdBlockFinishReadCmdFn \<and>
           bytesRead (readFile (fs_block w')) = bytesRead (readFile (fs_block w)) + word_of_int n \<and>
           bytesRemaining (readFile (fs_block w')) =
             bytesRemaining (readFile (fs_block w)) - word_of_int n \<and>
           calls w' = calls w @ [CmdQueueFinishCmd, CmdQueueEnqueue (block (fs_block w)) True,
                                 CmdQueueProcessCmd]"
  unfolding fsCmdBlockFinishReadCmd_continue [OF assms(1,2)]
  using assms(3) by (simp add: fsCmdBlockRequeue_enqueue del: One_nat_def)

lemma fsCmdBlockFinishReadCmd_cancelled:
  assumes "0 \<le> n"
    and "\<not> (bytesRemaining (readFile (fs_block w)) - word_of_int n = 0 \<or>
            word_of_int n < readSize (readFile (fs_block w)))"
    and "Cancelling \<in> cancelFlags (fs_block w)"
  shows "\<exists>w1. fsCmdBlockFinishReadCmd M w (FS_Value n) = fsCmdBlockReplyResult M w1 FS_Cancelled \<and>
           blockStatus (fs_block w1) = FSCmdBlockStatus_Cancelled \<and>
           Cancelling \<notin> cancelFlags (fs_block w1) \<and>
           finishCmdFn (fs_block w1) = finishCmdFn (fs_block w) \<and>
           lastDequeuedCommand (fs_client w1) = None \<and>
           msgQueues w1 = msgQueues w \<and> calls w1 = calls w"
  unfolding fsCmdBlockFinishReadCmd_continue [OF assms(1,2)]
  apply (subst fsCmdBlockRequeue_cancel)
   apply (simp add: assms(3))
  apply (rule exI, rule conjI, rule refl)
  apply simp
  done

text \<open>
  Claim C2, as stated, fails: "exactly when" has an exception. On a block whose
  cancellation has been requested, the first full reply of the 300 KB read (44 KB remain,
  and the reply is not partial) finalises the command all the same, with
  \<^verbatim>\<open>FSStatus::Cancelled\<close> and not with \<open>bytesRead / chunkSize\<close>.
\<close>

theorem fsCmdBlockFinishReadCmd_cancelled_finalises:
  "bytesRemaining (readFile (fs_block (with_cancelling read_world))) = 307200 \<and>
   readSize (readFile (fs_block (with_cancelling read_world))) = 262144 \<and>
   chunkSize (readFile (fs_block (with_cancelling read_world))) = 4096 \<and>
   fsCmdBlockFinishReadCmd 262144 (with_cancelling read_world) (FS_Value 262144) =
     Inr read_world_cancelled \<and>
   blockStatus (fs_block read_world_cancelled) = FSCmdBlockStatus_Cancelled \<and>
   messages (msgQueues read_world_cancelled 0) = [(7, FS_Cancelled)]"
proof -
  have "bytesRemaining (readFile (fs_block (with_cancelling read_world))) = 307200"
    "readSize (readFile (fs_block (with_cancelling read_world))) = 262144"
    "chunkSize (readFile (fs_block (with_cancelling read_world))) = 4096"
    by (simp_all add: with_cancelling_def read_world_def read_block_def)
  with read_cancelled_reply show ?thesis by simp
qed

text \<open>
  Claim C2, amended. For a reply of \<open>n \<ge> 0\<close> bytes and a chunk size other than 0,
  \<^verbatim>\<open>fsCmdBlockFinishReadCmd\<close> adds \<open>n\<close> to \<open>bytesRead\<close> and takes it from
  \<open>bytesRemaining\<close>. When \<open>bytesRemaining\<close> is then 0 or \<open>n < readSize\<close>, it finishes
  the command through \<^verbatim>\<open>fsCmdBlockFinishCmd\<close> with the status \<open>bytesRead / chunkSize\<close>
  (unsigned 32-bit division, converted to the signed status type), which for a ReadFile
  command is the status of the message posted to the block's queue. Otherwise no such
  status is reported. If the block is not being cancelled the command is not finalised:
  no message is posted, the async result is untouched, and the block is queued again with
  the read finish function. If the block is being cancelled, the block is marked
  \<^verbatim>\<open>Cancelled\<close> and \<^verbatim>\<open>FSStatus::Cancelled\<close> goes through \<^verbatim>\<open>fsCmdBlockReplyResult\<close>,
  which, when the block has a finish function and its queue has room, posts the message
  (block, \<^verbatim>\<open>Cancelled\<close>).
\<close>

theorem fsCmdBlockFinishReadCmd_finalises:
  assumes "0 \<le> n" and "chunkSize (readFile (fs_block w)) \<noteq> 0"
  shows "((bytesRemaining (readFile (fs_block w)) - word_of_int n = 0 \<or>
           word_of_int n < readSize (readFile (fs_block w))) \<longrightarrow>
          fsCmdBlockFinishReadCmd M w (FS_Value n) =
            fsCmdBlockFinishCmd
              (w\<lparr>fs_block := (fs_block w)\<lparr>readFile := (readFile (fs_block w))
                  \<lparr>bytesRead := bytesRead (readFile (fs_block w)) + word_of_int n,
                   bytesRemaining := bytesRemaining (readFile (fs_block w)) - word_of_int n\<rparr>\<rparr>\<rparr>)
              (FS_Value (sint ((bytesRead (readFile (fs_block w)) + word_of_int n)
                               div chunkSize (readFile (fs_block w)))))) \<and>
         ((bytesRemaining (readFile (fs_block w)) - word_of_int n = 0 \<or>
           word_of_int n < readSize (readFile (fs_block w))) \<and>
          shim_command (fs_block w) = FSA_ReadFile \<and>
          ioMsgQueue (asyncData (asyncResult (fs_block w))) = Some q \<and>
          length (messages (msgQueues w q)) < slots (msgQueues w q) \<longrightarrow>
          (\<exists>w'. fsCmdBlockFinishReadCmd M w (FS_Value n) = Inr w' \<and>
                 messages (msgQueues w' q) = messages (msgQueues w q) @
                   [(block (fs_block w),
                     FS_Value (sint ((bytesRead (readFile (fs_block w)) + word_of_int n)
                                     div chunkSize (readFile (fs_block w)))))])) \<and>
         (\<not> (bytesRemaining (readFile (fs_block w)) - word_of_int n = 0 \<or>
             word_of_int n < readSize (readFile (fs_block w))) \<and>
          Cancelling \<notin> cancelFlags (fs_block w) \<longrightarrow>
          (\<exists>w'. fsCmdBlockFinishReadCmd M w (FS_Value n) = Inr w' \<and>
                 msgQueues w' = msgQueues w \<and>
                 asyncResult (fs_block w') = asyncResult (fs_block w) \<and>
                 blockStatus (fs_block w') = FSCmdBlockStatus_QueuedCommand \<and>
                 finishCmdFn (fs_block w') = Some fsCmdBlockFinishReadCmdFn \<and>
                 bytesRead (readFile (fs_block w')) =
                   bytesRead (readFile (fs_block w)) + word_of_int n \<and>
                 bytesRemaining (readFile (fs_block w')) =
                   bytesRemaining (readFile (fs_block w)) - word_of_int n \<and>
                 calls w' = calls w @ [CmdQueueFinishCmd, CmdQueueEnqueue (block (fs_block w)) True,
                                       CmdQueueProcessCmd])) \<and>
         (\<not> (bytesRemaining (readFile (fs_block w)) - word_of_int n = 0 \<or>
             word_of_int n < readSize (readFile (fs_block w))) \<and>
          Cancelling \<in> cancelFlags (fs_block w) \<longrightarrow>
          (\<exists>w1. fsCmdBlockFinishReadCmd M w (FS_Value n) =
                   fsCmdBlockReplyResult M w1 FS_Cancelled \<and>
                 blockStatus (fs_block w1) = FSCmdBlockStatus_Cancelled \<and>
                 Cancelling \<notin> cancelFlags (fs_block w1) \<and>
                 finishCmdFn (fs_block w1) = finishCmdFn (fs_block w) \<and>
                 lastDequeuedCommand (fs_client w1) = None \<and>
                 msgQueues w1 = msgQueues w \<and> calls w1 = calls w)) \<and>
         (\<not> (bytesRemaining (readFile (fs_block w)) - word_of_int n = 0 \<or>
             word_of_int n < readSize (readFile (fs_block w))) \<and>
          Cancelling \<in> cancelFlags (fs_block w) \<and>
          finishCmdFn (fs_block w) \<noteq> None \<and>
          ioMsgQueue (asyncData (asyncResult (fs_block w))) = Some q \<and>
          length (messages (msgQueues w q)) < slots (msgQueues w q) \<longrightarrow>
          (\<exists>w'. fsCmdBlockFinishReadCmd M w (FS_Value n) = Inr w' \<and>
                 messages (msgQueues w' q) =
                   messages (msgQueues w q) @ [(block (fs_block w), FS_Cancelled)] \<and>
                 blockStatus (fs_block w') = FSCmdBlockStatus_Cancelled \<and>
                 calls w' = calls w @ [CmdQueueFinishCmd, CmdQueueProcessCmd]))"
proof -
  let ?done = "bytesRemaining (readFile (fs_block w)) - word_of_int n = 0 \<or>
               word_of_int n < readSize (readFile (fs_block w))"
  let ?w1 = "w\<lparr>fs_block := (fs_block w)\<lparr>readFile := (readFile (fs_block w))
                  \<lparr>bytesRead := bytesRead (readFile (fs_block w)) + word_of_int n,
                   bytesRemaining := bytesRemaining (readFile (fs_block w)) - word_of_int n\<rparr>\<rparr>\<rparr>"
  let ?st = "FS_Value (sint ((bytesRead (readFile (fs_block w)) + word_of_int n)
                               div chunkSize (readFile (fs_block w))))"
  have a: "?done \<longrightarrow> fsCmdBlockFinishReadCmd M w (FS_Value n) = fsCmdBlockFinishCmd ?w1 ?st"
    using fsCmdBlockFinishReadCmd_complete [OF assms] by blast
  have b: "\<exists>w'. fsCmdBlockFinishReadCmd M w (FS_Value n) = Inr w' \<and>
                 messages (msgQueues w' q) = messages (msgQueues w q) @ [(block (fs_block w), ?st)]"
    if d: ?done and c: "shim_command (fs_block w) = FSA_ReadFile"
      and qq: "ioMsgQueue (asyncData (asyncResult (fs_block w))) = Some q"
      and room: "length (messages (msgQueues w q)) < slots (msgQueues w q)"
  proof -
    have c1: "shim_command (fs_block ?w1) = FSA_ReadFile" using c by simp
    have q1: "ioMsgQueue (asyncData (asyncResult (fs_block ?w1))) = Some q" using qq by simp
    have r1: "length (messages (msgQueues ?w1 q)) < slots (msgQueues ?w1 q)" using room by simp
    from fsCmdBlockFinishCmd_ReadFile_delivers [OF c1 q1 r1, of ?st]
    obtain w' where "fsCmdBlockFinishCmd ?w1 ?st = Inr w'"
      and "messages (msgQueues w' q) = messages (msgQueues ?w1 q) @ [(block (fs_block ?w1), ?st)]"
      by blast
    with a d show ?thesis by auto
  qed
  note c = fsCmdBlockFinishReadCmd_requeued [OF assms(1), of w M]
  note d = fsCmdBlockFinishReadCmd_cancelled [OF assms(1), of w M]
  have e: "\<exists>w'. fsCmdBlockFinishReadCmd M w (FS_Value n) = Inr w' \<and>
                 messages (msgQueues w' q) =
                   messages (msgQueues w q) @ [(block (fs_block w), FS_Cancelled)] \<and>
                 blockStatus (fs_block w') = FSCmdBlockStatus_Cancelled \<and>
                 calls w' = calls w @ [CmdQueueFinishCmd, CmdQueueProcessCmd]"
    if nd: "\<not> ?done" and k: "Cancelling \<in> cancelFlags (fs_block w)"
      and f: "finishCmdFn (fs_block w) \<noteq> None"
      and qq: "ioMsgQueue (asyncData (asyncResult (fs_block w))) = Some q"
      and room: "length (messages (msgQueues w q)) < slots (msgQueues w q)"
  proof -
    from f obtain fn where fn: "finishCmdFn (fs_block w) = Some fn" by auto
    from fsCmdBlockFinishReadCmd_cancelled_delivers [OF assms(1) nd k fn qq room, of M]
    show ?thesis by blast
  qed
  from a b c d e show ?thesis by blast
qed

text \<open>
  The amended C2 at scenario 3 of section 8 (300 KB, chunks of 4096, 256 KB per request): the first
  reply of 256 KB queues the block again and posts nothing; the second reply of 44 KB
  posts the final status 75.
\<close>

theorem fsCmdBlockFinishReadCmd_finalises_witness:
  "(0::int) \<le> 45056 \<and> chunkSize (readFile (fs_block read_world_second)) \<noteq> 0 \<and>
   fsCmdBlockFinishReadCmd 262144 read_world (FS_Value 262144) = Inr read_world_second \<and>
   calls read_world_second = [CmdQueueFinishCmd, CmdQueueEnqueue 7 True, CmdQueueProcessCmd] \<and>
   messages (msgQueues read_world_second 0) = [] \<and>
   (\<exists>w'. fsCmdBlockFinishReadCmd 262144 read_world_second (FS_Value 45056) = Inr w' \<and>
         messages (msgQueues w' 0) = [(7, FS_Value 75)]) \<and>
   Cancelling \<notin> cancelFlags (fs_block read_world) \<and>
   (\<exists>w'. fsCmdBlockFinishReadCmd 262144 read_world (FS_Value 262144) = Inr w' \<and>
         messages (msgQueues w' 0) = [] \<and>
         result_status (asyncResult (fs_block w')) = None \<and>
         blockStatus (fs_block w') = FSCmdBlockStatus_QueuedCommand) \<and>
   Cancelling \<in> cancelFlags (fs_block (with_cancelling read_world)) \<and>
   (\<exists>w'. fsCmdBlockFinishReadCmd 262144 (with_cancelling read_world) (FS_Value 262144) = Inr w' \<and>
         messages (msgQueues w' 0) = [(7, FS_Cancelled)] \<and>
         blockStatus (fs_block w') = FSCmdBlockStatus_Cancelled)"
proof -
  have n: "(0::int) \<le> 45056" by simp
  have facts:
    "chunkSize (readFile (fs_block read_world_second)) = 4096"
    "bytesRemaining (readFile (fs_block read_world_second)) = 45056"
    "bytesRead (readFile (fs_block read_world_second)) = 262144"
    "shim_command (fs_block read_world_second) = FSA_ReadFile"
    "ioMsgQueue (asyncData (asyncResult (fs_block read_world_second))) = Some 0"
    "msgQueues read_world_second 0 = \<lparr>messages = [], slots = 1\<rparr>"
    "block (fs_block read_world_second) = 7"
    "calls read_world_second = [CmdQueueFinishCmd, CmdQueueEnqueue 7 True, CmdQueueProcessCmd]"
    by (simp_all add: read_world_second_eq read_world_def read_block_def)
  have c: "chunkSize (readFile (fs_block read_world_second)) \<noteq> 0" by (simp add: facts)
  have first: "fsCmdBlockFinishReadCmd 262144 read_world (FS_Value 262144) = Inr read_world_second"
    by (simp add: read_first_reply read_world_second_eq)
  from fsCmdBlockFinishReadCmd_finalises [OF n c, of 262144 0, THEN conjunct2, THEN conjunct1]
  have last: "\<exists>w'. fsCmdBlockFinishReadCmd 262144 read_world_second (FS_Value 45056) = Inr w' \<and>
         messages (msgQueues w' 0) = [(7, FS_Value 75)]"
    by (simp add: facts)
  have n1: "(0::int) \<le> 262144" by simp
  have rfacts:
    "chunkSize (readFile (fs_block read_world)) = 4096"
    "bytesRemaining (readFile (fs_block read_world)) = 307200"
    "readSize (readFile (fs_block read_world)) = 262144"
    "cancelFlags (fs_block read_world) = {}"
    "msgQueues read_world 0 = \<lparr>messages = [], slots = 1\<rparr>"
    "result_status (asyncResult (fs_block read_world)) = None"
    by (simp_all add: read_world_def read_block_def)
  have c1: "chunkSize (readFile (fs_block read_world)) \<noteq> 0" by (simp add: rfacts)
  have k: "Cancelling \<notin> cancelFlags (fs_block read_world)" by (simp add: rfacts)
  from fsCmdBlockFinishReadCmd_finalises
         [OF n1 c1, of 262144 0, THEN conjunct2, THEN conjunct2, THEN conjunct1]
  have again: "\<exists>w'. fsCmdBlockFinishReadCmd 262144 read_world (FS_Value 262144) = Inr w' \<and>
         messages (msgQueues w' 0) = [] \<and>
         result_status (asyncResult (fs_block w')) = None \<and>
         blockStatus (fs_block w') = FSCmdBlockStatus_QueuedCommand"
    by (auto simp: rfacts)
  have cfacts:
    "chunkSize (readFile (fs_block (with_cancelling read_world))) = 4096"
    "bytesRemaining (readFile (fs_block (with_cancelling read_world))) = 307200"
    "readSize (readFile (fs_block (with_cancelling read_world))) = 262144"
    "cancelFlags (fs_block (with_cancelling read_world)) = {Cancelling}"
    "finishCmdFn (fs_block (with_cancelling read_world)) = Some fsCmdBlockFinishReadCmdFn"
    "ioMsgQueue (asyncData (asyncResult (fs_block (with_cancelling read_world)))) = Some 0"
    "msgQueues (with_cancelling read_world) 0 = \<lparr>messages = [], slots = 1\<rparr>"
    "block (fs_block (with_cancelling read_world)) = 7"
    by (simp_all add: with_cancelling_def read_world_def read_block_def)
  have c2: "chunkSize (readFile (fs_block (with_cancelling read_world))) \<noteq> 0"
    by (simp add: cfacts)
  have k': "Cancelling \<in> cancelFlags (fs_block (with_cancelling read_world))"
    by (simp add: cfacts)
  from fsCmdBlockFinishReadCmd_finalises
         [OF n1 c2, of 262144 0, THEN conjunct2, THEN conjunct2, THEN conjunct2, THEN conjunct2]
  have cancelled: "\<exists>w'. fsCmdBlockFinishReadCmd 262144 (with_cancelling read_world) (FS_Value 262144) = Inr w' \<and>
         messages (msgQueues w' 0) = [(7, FS_Cancelled)] \<and>
         blockStatus (fs_block w') = FSCmdBlockStatus_Cancelled"
    by (auto simp: cfacts)
  from n c first last facts(6,8) k again k' cancelled show ?thesis by simp
qed

text \<open>
  Claim C3, as stated, fails. After the first full reply of the 300 KB read (44 KB
  remain), the block is enqueued with \<^verbatim>\<open>fsCmdQueueEnqueue\<close>, the source passing
  \<^verbatim>\<open>FALSE\<close> for \<^verbatim>\<open>insertAtFront\<close>: no \<^verbatim>\<open>fsCmdQueuePushFront\<close> is called (where
  \<^verbatim>\<open>fsCmdQueueEnqueue\<close> places the block is decided outside the sources). And when the
  block is being cancelled it is not requeued at all, but completed with
  \<^verbatim>\<open>FSStatus::Cancelled\<close>.
\<close>

theorem fsCmdBlockFinishReadCmd_requeue_enqueues:
  "readSize (readFile (fs_block read_world)) = 262144 \<and>
   bytesRemaining (readFile (fs_block read_world_second)) = 45056 \<and>
   fsCmdBlockFinishReadCmd 262144 read_world (FS_Value 262144) = Inr read_world_second \<and>
   calls read_world_second = [CmdQueueFinishCmd, CmdQueueEnqueue 7 True, CmdQueueProcessCmd] \<and>
   CmdQueuePushFront 7 \<notin> set (calls read_world_second) \<and>
   fsCmdBlockFinishReadCmd 262144 (with_cancelling read_world) (FS_Value 262144) =
     Inr read_world_cancelled \<and>
   calls read_world_cancelled = [CmdQueueFinishCmd, CmdQueueProcessCmd] \<and>
   blockStatus (fs_block read_world_cancelled) = FSCmdBlockStatus_Cancelled \<and>
   messages (msgQueues read_world_cancelled 0) = [(7, FS_Cancelled)]"
proof -
  have a: "readSize (readFile (fs_block read_world)) = 262144"
    by (simp add: read_world_def read_block_def)
  have b: "bytesRemaining (readFile (fs_block read_world_second)) = 45056"
    "calls read_world_second = [CmdQueueFinishCmd, CmdQueueEnqueue 7 True, CmdQueueProcessCmd]"
    by (simp_all add: read_world_second_eq read_world_def)
  have c: "fsCmdBlockFinishReadCmd 262144 read_world (FS_Value 262144) = Inr read_world_second"
    by (simp add: read_first_reply read_world_second_eq)
  from a b c read_cancelled_reply show ?thesis by simp
qed

text \<open>The amended C3 at the first reply of the 300 KB read, without and with cancellation.\<close>

theorem fsCmdBlockFinishReadCmd_continuation_witness:
  "(0::int) \<le> 262144 \<and>
   \<not> (bytesRemaining (readFile (fs_block read_world)) - word_of_int 262144 = 0 \<or>
      word_of_int 262144 < readSize (readFile (fs_block read_world))) \<and>
   Cancelling \<notin> cancelFlags (fs_block read_world) \<and>
   fsCmdBlockFinishReadCmd 262144 read_world (FS_Value 262144) =
     Inr (read_world
           \<lparr>fs_block := read_block
              \<lparr>readFile := \<lparr>bytesRead = 262144, bytesRemaining = 45056, readSize = 45056,
                             chunkSize = 4096\<rparr>,
               shim_readFile := \<lparr>req_buffer = 0x10040000, req_size = 45056, req_count = 1,
                                  req_pos = 262144, req_readFlags = {ReadWithPos}\<rparr>,
               ioctlvVec := [\<lparr>paddr = 0, len = 0\<rparr>, \<lparr>paddr = 0x10040000, len = 45056\<rparr>,
                             \<lparr>paddr = 0, len = 0\<rparr>],
               finishCmdFn := Some fsCmdBlockFinishReadCmdFn,
               blockStatus := FSCmdBlockStatus_QueuedCommand\<rparr>,
            calls := [CmdQueueFinishCmd, CmdQueueEnqueue 7 True, CmdQueueProcessCmd]\<rparr>) \<and>
   Cancelling \<in> cancelFlags (fs_block (with_cancelling read_world)) \<and>
   (\<exists>w'. fsCmdBlockFinishReadCmd 262144 (with_cancelling read_world) (FS_Value 262144) =
            fsCmdBlockReplyResult 262144 w' FS_Cancelled \<and>
          blockStatus (fs_block w') = FSCmdBlockStatus_Cancelled \<and>
          cancelFlags (fs_block w') = {} \<and>
          lastDequeuedCommand (fs_client w') = None)"
proof -
  have n: "(0::int) \<le> 262144" by simp
  have c: "\<not> (bytesRemaining (readFile (fs_block read_world)) - word_of_int 262144 = 0 \<or>
               word_of_int 262144 < readSize (readFile (fs_block read_world)))"
    by (simp add: read_world_def read_block_def)
  have k: "Cancelling \<notin> cancelFlags (fs_block read_world)"
    by (simp add: read_world_def read_block_def)
  have c': "\<not> (bytesRemaining (readFile (fs_block (with_cancelling read_world))) - word_of_int 262144 = 0 \<or>
               word_of_int 262144 < readSize (readFile (fs_block (with_cancelling read_world))))"
    by (simp add: with_cancelling_def read_world_def read_block_def)
  have k': "Cancelling \<in> cancelFlags (fs_block (with_cancelling read_world))"
    by (simp add: with_cancelling_def)
  from fsCmdBlockFinishReadCmd_continuation [OF n c, of 262144, THEN conjunct1] k
  have enq: "fsCmdBlockFinishReadCmd 262144 read_world (FS_Value 262144) =
     Inr (read_world
           \<lparr>fs_block := read_block
              \<lparr>readFile := \<lparr>bytesRead = 262144, bytesRemaining = 45056, readSize = 45056,
                             chunkSize = 4096\<rparr>,
               shim_readFile := \<lparr>req_buffer = 0x10040000, req_size = 45056, req_count = 1,
                                  req_pos = 262144, req_readFlags = {ReadWithPos}\<rparr>,
               ioctlvVec := [\<lparr>paddr = 0, len = 0\<rparr>, \<lparr>paddr = 0x10040000, len = 45056\<rparr>,
                             \<lparr>paddr = 0, len = 0\<rparr>],
               finishCmdFn := Some fsCmdBlockFinishReadCmdFn,
               blockStatus := FSCmdBlockStatus_QueuedCommand\<rparr>,
            calls := [CmdQueueFinishCmd, CmdQueueEnqueue 7 True, CmdQueueProcessCmd]\<rparr>)"
    by (simp add: read_world_def read_block_def)
  note eq = fsCmdBlockFinishReadCmd_continuation [OF n c', of 262144, THEN conjunct2, rule_format, OF k']
  have can: "\<exists>w'. fsCmdBlockFinishReadCmd 262144 (with_cancelling read_world) (FS_Value 262144) =
            fsCmdBlockReplyResult 262144 w' FS_Cancelled \<and>
          blockStatus (fs_block w') = FSCmdBlockStatus_Cancelled \<and>
          cancelFlags (fs_block w') = {} \<and>
          lastDequeuedCommand (fs_client w') = None"
    by (rule exI, rule conjI, rule eq) (simp add: with_cancelling_def)
  from n c k enq k' can show ?thesis by blast
qed

end
